theory Spec2Isabelle
  imports Complex_Main "HOL-Library.Sublist" "HOL-Library.Char_ord" "HOL-Library.List_Lexorder"
    "HOL-Library.Product_Lexorder"
begin

section \<open>Conventions of the embedding\<close>

text \<open>
  The pipeline works on pandas data frames. A data frame is modelled as the list of its
  rows, a row as a record with the columns the code reads. A float column is a
  \<open>real\<close>, computed exactly; a cell that may be NaN is a \<open>real option\<close> with
  \<open>None\<close> for NaN, so that \<open>pd.notna\<close> is \<open>\<noteq> None\<close> and every comparison with NaN
  is false, as in Python. An empty data frame is the empty list, and a function that
  returns Python's \<open>None\<close> returns \<open>None\<close> here.

  Two things the code calls are parameters of the model, since no property below
  depends on what they compute: the regular-expression search of
  \<open>Series.str.contains(pattern, case=False, na=False)\<close> with the module-level
  pattern tables (record \<open>matching\<close>), and the emission-factor lookup
  \<open>get_plant_ef(country, process, year)\<close> (parameter \<open>get_plant_ef\<close>).
\<close>

subsection \<open>Module-level tables of apa\_calculator.py\<close>

record transfer =
  acquirer :: string
  target :: string
  target_plant_pattern :: string
  year_acquired :: int

text \<open>
  \<open>contains pattern s\<close> is \<open>re.search(pattern, s, re.IGNORECASE)\<close> finding a match;
  \<open>str_contains\<close> is \<open>Series.str.contains(pattern, case=False, na=False)\<close> on one
  cell, false on a missing cell.
\<close>

record matching =
  contains :: "string \<Rightarrow> string \<Rightarrow> bool"
  COMPANY_GEM_PATTERNS :: "string \<rightharpoonup> string"
  COMPANY_PLANT_NAME_PATTERNS :: "string \<rightharpoonup> string"
  OWNERSHIP_TRANSFERS :: "transfer list"

definition str_contains :: "matching \<Rightarrow> string \<Rightarrow> string option \<Rightarrow> bool" where
  "str_contains m pattern cell = (case cell of Some s \<Rightarrow> contains m pattern s | None \<Rightarrow> False)"

definition company_pattern :: "matching \<Rightarrow> string \<Rightarrow> string" where
  "company_pattern m company_name =
     (case COMPANY_GEM_PATTERNS m company_name of Some p \<Rightarrow> p | None \<Rightarrow> company_name)"

subsection \<open>Strings\<close>

definition lower_char :: "char \<Rightarrow> char" where
  "lower_char c =
     (let n = (of_char c :: nat) in if 65 \<le> n \<and> n \<le> 90 then char_of (n + 32) else c)"

definition lower :: "string \<Rightarrow> string" where
  "lower s = map lower_char s"

text \<open>Python's \<open>p in s\<close> on strings: \<open>p\<close> occurs in \<open>s\<close> as a contiguous block.\<close>

fun str_in :: "string \<Rightarrow> string \<Rightarrow> bool" where
  "str_in p [] = (p = [])"
| "str_in p (c # cs) = (prefix p (c # cs) \<or> str_in p cs)"

subsection \<open>Rounding\<close>

text \<open>
  \<open>round(x, n)\<close> and \<open>Series.round(n)\<close>: the nearest multiple of \<open>10\<^sup>-\<^sup>n\<close>, a tie
  going to the even one.
\<close>

definition round_half_even :: "real \<Rightarrow> int" where
  "round_half_even x =
     (let f = \<lfloor>x\<rfloor>; d = x - of_int f in
      if d < 1 / 2 then f
      else if 1 / 2 < d then f + 1
      else if even f then f else f + 1)"

definition round_nd :: "real \<Rightarrow> nat \<Rightarrow> real" where
  "round_nd x n = of_int (round_half_even (x * 10 ^ n)) / 10 ^ n"

text \<open>\<open>Series.sum()\<close> skips NaN cells.\<close>

definition nansum :: "real option list \<Rightarrow> real" where
  "nansum xs = sum_list (map (\<lambda>x. case x of None \<Rightarrow> 0 | Some v \<Rightarrow> v) xs)"

section \<open>Unit lifecycle (gem\_closure\_tp.py)\<close>

record gem_unit =
  gem_unit_id :: string
  unit_name :: string
  plant_name :: string
  unit_status :: string
  unit_type :: string
  country :: string
  process_type :: string
  parent :: "string option"
  start_year :: "real option"
  pre_retirement_announced_year :: "real option"
  retired_year :: "real option"
  capacity_ttpa :: "real option"

text \<open>\<open>_infer_close_year\<close>: \<open>None\<close> is \<open>np.nan\<close>, no closure.\<close>

definition infer_close_year :: "gem_unit \<Rightarrow> real option" where
  "infer_close_year unit_row =
     (let status = lower (unit_status unit_row) in
      if status \<in> set [''retired'', ''mothballed''] then
        (case retired_year unit_row of
           Some r \<Rightarrow> Some r
         | None \<Rightarrow> Some 2023)
      else if str_in ''pre-retirement'' status then
        (case retired_year unit_row of
           Some r \<Rightarrow> Some r
         | None \<Rightarrow>
            (case pre_retirement_announced_year unit_row of
               Some a \<Rightarrow> Some (a + 5)
             | None \<Rightarrow> Some 2030))
      else None)"

text \<open>\<open>_unit_is_active\<close>.\<close>

definition unit_is_active :: "gem_unit \<Rightarrow> int \<Rightarrow> real option \<Rightarrow> bool" where
  "unit_is_active unit_row year close_year =
     (let status = lower (unit_status unit_row) in
      if status = ''cancelled'' then False
      else if (case start_year unit_row of Some s \<Rightarrow> of_int year < s | None \<Rightarrow> False)
        then False
      else if (case close_year of Some c \<Rightarrow> c \<le> of_int year | None \<Rightarrow> False)
        then False
      else True)"

text \<open>
  \<open>match_units_to_company\<close> (kampmann\_audit.py): the pattern of the company in
  \<open>COMPANY_GEM_PATTERNS\<close>, or the company name itself, searched in the \<open>parent\<close>
  cell; a missing parent never matches (\<open>na=False\<close>).
\<close>

definition match_units_to_company :: "matching \<Rightarrow> gem_unit list \<Rightarrow> string \<Rightarrow> gem_unit list" where
  "match_units_to_company m units_df company_name =
     (let pattern = company_pattern m company_name in
      filter (\<lambda>u. str_contains m pattern (parent u)) units_df)"

text \<open>
  \<open>build_closure_inventory\<close> (kampmann\_audit.py). \<open>inventory_close\<close> is the
  inference of the loop body for one unit: the pair (close\_year, close\_source). The
  inventory has one row per company of \<open>ALL_COMPANIES\<close> and matched unit.
\<close>

definition inventory_close :: "gem_unit \<Rightarrow> real option \<times> string" where
  "inventory_close u =
     (let status = lower (unit_status u) in
      if status \<in> set [''retired'', ''mothballed''] then
        (case retired_year u of
           Some r \<Rightarrow> (Some r, ''gem_retired_date'')
         | None \<Rightarrow> (Some 2024, ''gem_status_inferred''))
      else if str_in ''pre-retirement'' status then
        (case retired_year u of
           Some r \<Rightarrow> (Some r, ''gem_planned_retirement'')
         | None \<Rightarrow>
            (case pre_retirement_announced_year u of
               Some a \<Rightarrow> (Some (a + 5), ''inferred_5yr_from_announcement'')
             | None \<Rightarrow> (Some 2030, ''default_2030'')))
      else (None, ''none''))"

record inventory_row =
  inv_company :: string
  inv_gem_unit_id :: string
  inv_unit_status :: string
  inferred_close_year :: "real option"
  close_source :: string

definition build_closure_inventory :: "matching \<Rightarrow> string list \<Rightarrow> gem_unit list \<Rightarrow> inventory_row list" where
  "build_closure_inventory m ALL_COMPANIES units_df =
     concat (map (\<lambda>company_name.
       map (\<lambda>u. \<lparr>inv_company = company_name, inv_gem_unit_id = gem_unit_id u,
                  inv_unit_status = lower (unit_status u),
                  inferred_close_year = fst (inventory_close u),
                  close_source = snd (inventory_close u)\<rparr>)
           (match_units_to_company m units_df company_name)) ALL_COMPANIES)"

text \<open>One row of the unit-level detail frame built by \<open>build_plant_level_tp\<close>.\<close>

record detail_row =
  detail_company :: string
  detail_year :: int
  detail_country :: string
  detail_process_type :: string
  detail_unit_type :: string
  detail_gem_unit_id :: string
  detail_unit_name :: string
  detail_plant_name :: string
  detail_unit_status :: string
  detail_capacity_ttpa :: real
  detail_production_mt :: real
  detail_emissions_mt :: real

text \<open>
  The body of the inner loop of \<open>build_plant_level_tp\<close> for one year and one unit:
  no row when the unit is not active or has no positive capacity, one row otherwise.
\<close>

definition unit_detail ::
  "(string \<Rightarrow> string \<Rightarrow> int option \<Rightarrow> real) \<Rightarrow> string \<Rightarrow> real \<Rightarrow> int \<Rightarrow> gem_unit \<Rightarrow> real option
     \<Rightarrow> detail_row list"
where
  "unit_detail get_plant_ef company_name base_ur year u close_year =
     (if \<not> unit_is_active u year close_year then []
      else case capacity_ttpa u of
        None \<Rightarrow> []
      | Some cap_ttpa \<Rightarrow>
          if cap_ttpa \<le> 0 then []
          else
            (let cap_mt = cap_ttpa / 1000;
                 prod_mt = cap_mt * base_ur;
                 ef = get_plant_ef (country u) (process_type u) (Some year);
                 em_mt = prod_mt * ef
             in [\<lparr>detail_company = company_name, detail_year = year, detail_country = country u,
                  detail_process_type = process_type u, detail_unit_type = unit_type u,
                  detail_gem_unit_id = gem_unit_id u, detail_unit_name = unit_name u,
                  detail_plant_name = plant_name u, detail_unit_status = unit_status u,
                  detail_capacity_ttpa = cap_ttpa,
                  detail_production_mt = round_nd prod_mt 4,
                  detail_emissions_mt = round_nd em_mt 4\<rparr>]))"

text \<open>
  \<open>build_plant_level_tp\<close>. The \<open>close_year\<close> column is \<open>_infer_close_year\<close> of the
  unit, overwritten by NaN for every unit when \<open>skip_closures\<close> is set.
\<close>

definition build_plant_level_tp ::
  "matching \<Rightarrow> (string \<Rightarrow> string \<Rightarrow> int option \<Rightarrow> real)
     \<Rightarrow> gem_unit list \<Rightarrow> string \<Rightarrow> int \<Rightarrow> int \<Rightarrow> real \<Rightarrow> bool \<Rightarrow> detail_row list"
where
  "build_plant_level_tp m get_plant_ef steel_units company_name base_year end_year
       base_ur skip_closures =
     (let company_units = match_units_to_company m steel_units company_name;
          close_year = (\<lambda>u. if skip_closures then None else infer_close_year u)
      in concat (map (\<lambda>year.
           concat (map (\<lambda>u. unit_detail get_plant_ef company_name base_ur year u (close_year u))
                       company_units))
           [base_year..end_year]))"

subsection \<open>Calibration, aggregation and anchoring\<close>

text \<open>A row of the historical emissions file read by \<open>load_apa_emissions\<close>.\<close>

record apa_row =
  apa_company :: string
  apa_year :: int
  apa_emissions_mt :: "real option"
  apa_production_mt :: "real option"

text \<open>
  The historical row used for calibration (\<open>company_apa\<close>) and \<open>actual_base_year\<close>:
  the company's row of the base year, else its row of the latest year, else nothing.
\<close>

definition select_company_apa :: "apa_row list \<Rightarrow> string \<Rightarrow> int \<Rightarrow> (apa_row \<times> int) option" where
  "select_company_apa apa_df company_name base_year =
     (case filter (\<lambda>r. apa_company r = company_name \<and> apa_year r = base_year) apa_df of
        r # _ \<Rightarrow> Some (r, base_year)
      | [] \<Rightarrow>
          (let company_apa_all = sort_key apa_year (filter (\<lambda>r. apa_company r = company_name) apa_df)
           in if company_apa_all = [] then None
              else Some (last company_apa_all, apa_year (last company_apa_all))))"

text \<open>
  Base-year capacity in Mt: units whose status is exactly operating or operating
  pre-retirement and whose start year, 2000 when missing, is not after the base year.
\<close>

definition base_capacity_mt :: "gem_unit list \<Rightarrow> int \<Rightarrow> real" where
  "base_capacity_mt company_units actual_base_year =
     (let status_active = [''operating'', ''operating pre-retirement''];
          base_active = filter (\<lambda>u. unit_status u \<in> set status_active \<and>
            (case start_year u of None \<Rightarrow> 2000 | Some s \<Rightarrow> s) \<le> of_int actual_base_year)
            company_units
      in nansum (map capacity_ttpa base_active) / 1000)"

definition calibrate_ur :: "real \<Rightarrow> real option \<Rightarrow> real" where
  "calibrate_ur capacity_mt apa_production =
     (case apa_production of
        None \<Rightarrow> 0.80
      | Some p \<Rightarrow>
          if 0 < capacity_mt \<and> 0 < p then max 0.40 (min (p / capacity_mt) 1.0) else 0.80)"

text \<open>
  The company-year frame. \<open>emissions_raw\<close> and \<open>production_raw\<close> are the columns
  \<open>tp_emissions_raw\<close>, \<open>tp_production_raw\<close> of the planned-transition frame and
  \<open>bau_emissions_raw\<close>, \<open>bau_production_raw\<close> of the no-closure frame;
  \<open>annual_emissions_mt\<close> and \<open>annual_production_mt\<close> are \<open>tp_emissions_mt\<close>,
  \<open>tp_production_mt\<close> and \<open>bau_emissions_mt\<close>, \<open>bau_production_mt\<close>; the other
  columns carry the prefix \<open>annual_\<close> where the name alone is used for a variable.
\<close>

record annual_row =
  annual_company :: string
  annual_year :: int
  emissions_raw :: real
  production_raw :: real
  n_active_units :: nat
  active_capacity_ttpa :: real
  annual_calibrated_ur :: real
  annual_emissions_mt :: real
  annual_production_mt :: real
  apa_anchored :: bool
  annual_scale_factor :: real

text \<open>
  \<open>detail.groupby(["company", "year"]).agg(...)\<close>: one group per year that has a row,
  in ascending order of the year (every row carries the same company).
\<close>

record annual_raw =
  raw_company :: string
  raw_year :: int
  raw_emissions :: real
  raw_production :: real
  raw_n_active_units :: nat
  raw_active_capacity_ttpa :: real

definition aggregate_annual :: "detail_row list \<Rightarrow> annual_raw list" where
  "aggregate_annual detail =
     map (\<lambda>y. let grp = filter (\<lambda>r. detail_year r = y) detail in
            \<lparr>raw_company = detail_company (hd grp), raw_year = y,
             raw_emissions = sum_list (map detail_emissions_mt grp),
             raw_production = sum_list (map detail_production_mt grp),
             raw_n_active_units = length grp,
             raw_active_capacity_ttpa = sum_list (map detail_capacity_ttpa grp)\<rparr>)
         (sort (remdups (map detail_year detail)))"

text \<open>
  The anchoring block. \<open>gem_base_em\<close> is the raw emissions of the base year when the
  frame has that year and the value is positive, NaN otherwise.
\<close>

definition gem_base_em :: "annual_raw list \<Rightarrow> int \<Rightarrow> real option" where
  "gem_base_em annual base_year =
     (case map raw_emissions (filter (\<lambda>r. raw_year r = base_year) annual) of
        g # _ \<Rightarrow> if 0 < g then Some g else None
      | [] \<Rightarrow> None)"

definition is_anchored :: "real option \<Rightarrow> real option \<Rightarrow> bool" where
  "is_anchored apa_emissions gem_base =
     (case (apa_emissions, gem_base) of
        (Some a, Some g) \<Rightarrow> 0 < a \<and> 0 < g
      | _ \<Rightarrow> False)"

definition anchor_scale_factor :: "real option \<Rightarrow> real option \<Rightarrow> real" where
  "anchor_scale_factor apa_emissions gem_base =
     (case (apa_emissions, gem_base) of
        (Some a, Some g) \<Rightarrow> if 0 < a \<and> 0 < g then a / g else 1.0
      | _ \<Rightarrow> 1.0)"

definition anchor :: "real option \<Rightarrow> int \<Rightarrow> real \<Rightarrow> annual_raw list \<Rightarrow> annual_row list" where
  "anchor apa_emissions base_year ur annual =
     (let g = gem_base_em annual base_year;
          sf = anchor_scale_factor apa_emissions g
      in map (\<lambda>r.
           \<lparr>annual_company = raw_company r, annual_year = raw_year r,
            emissions_raw = raw_emissions r, production_raw = raw_production r,
            n_active_units = raw_n_active_units r,
            active_capacity_ttpa = raw_active_capacity_ttpa r,
            annual_calibrated_ur = ur,
            annual_emissions_mt =
              (if is_anchored apa_emissions g then round_nd (raw_emissions r * sf) 3
               else round_nd (raw_emissions r) 3),
            annual_production_mt =
              (if is_anchored apa_emissions g then round_nd (raw_production r * sf) 3
               else round_nd (raw_production r) 3),
            apa_anchored = is_anchored apa_emissions g,
            annual_scale_factor = round_nd sf 4\<rparr>) annual)"

text \<open>
  \<open>generate_company_tp\<close> and \<open>generate_company_bau\<close>: the two functions are the same
  text in the source except for \<open>skip_closures\<close> and the column prefix, so the model has
  one body with the flag as an argument. The result is the pair (annual, detail); a pair
  of empty frames is a pair of empty lists.
\<close>

definition generate_company ::
  "bool \<Rightarrow> matching \<Rightarrow> (string \<Rightarrow> string \<Rightarrow> int option \<Rightarrow> real)
     \<Rightarrow> gem_unit list \<Rightarrow> string \<Rightarrow> apa_row list \<Rightarrow> int \<Rightarrow> int \<Rightarrow> annual_row list \<times> detail_row list"
where
  "generate_company skip_closures m get_plant_ef steel_units company_name apa_df
       base_year end_year =
     (let company_units = match_units_to_company m steel_units company_name in
      if company_units = [] then ([], [])
      else case select_company_apa apa_df company_name base_year of
        None \<Rightarrow> ([], [])
      | Some (company_apa, actual_base_year) \<Rightarrow>
          (let apa_production = apa_production_mt company_apa;
               ur = calibrate_ur (base_capacity_mt company_units actual_base_year) apa_production;
               detail = build_plant_level_tp m get_plant_ef steel_units
                          company_name base_year end_year ur skip_closures
           in if detail = [] then ([], [])
              else (anchor (apa_emissions_mt company_apa) base_year ur (aggregate_annual detail),
                    detail)))"

definition generate_company_tp ::
  "matching \<Rightarrow> (string \<Rightarrow> string \<Rightarrow> int option \<Rightarrow> real)
     \<Rightarrow> gem_unit list \<Rightarrow> string \<Rightarrow> apa_row list \<Rightarrow> int \<Rightarrow> int \<Rightarrow> annual_row list \<times> detail_row list"
where
  "generate_company_tp = generate_company False"

definition generate_company_bau ::
  "matching \<Rightarrow> (string \<Rightarrow> string \<Rightarrow> int option \<Rightarrow> real)
     \<Rightarrow> gem_unit list \<Rightarrow> string \<Rightarrow> apa_row list \<Rightarrow> int \<Rightarrow> int \<Rightarrow> annual_row list \<times> detail_row list"
where
  "generate_company_bau = generate_company True"

section \<open>Plants and the output allocator (apa\_calculator.py)\<close>

text \<open>
  A row of the plant frame of \<open>load_all_gem_plants\<close>; the columns carry the prefix
  \<open>p_\<close>. The loader keeps only rows with a positive, non-missing capacity.
\<close>

record plant =
  p_plant_id :: string
  p_plant_name :: "string option"
  p_country :: "string option"
  p_parent :: "string option"
  p_status :: "string option"
  p_capacity_ttpa :: real
  p_process :: string
  p_ef :: real
  p_start_year :: "real option"

text \<open>\<open>get_plants_for_year\<close>: the historical year filter.\<close>

definition get_plants_for_year :: "plant list \<Rightarrow> int \<Rightarrow> plant list" where
  "get_plants_for_year all_plants y =
     (let status_lower = (\<lambda>p. map_option lower (p_status p));
          started = (\<lambda>p. case p_start_year p of Some s \<Rightarrow> s \<le> of_int y | None \<Rightarrow> False);
          operating_mask = (\<lambda>p. status_lower p \<in> set [Some ''operating'', Some ''operating pre-retirement'']
                                \<and> started p);
          construction_mask = (\<lambda>p. status_lower p = Some ''construction'' \<and> started p);
          retired_mask = (\<lambda>p. status_lower p \<in> set [Some ''retired'', Some ''mothballed'']
                              \<and> started p)
      in filter (\<lambda>p. operating_mask p \<or> construction_mask p \<or> retired_mask p) all_plants)"

text \<open>
  \<open>get_company_plants\<close>: match on the parent, drop the plants of a company acquired
  later than the query year, fall back to the plant name when nothing is left.
\<close>

definition apply_transfer :: "matching \<Rightarrow> string \<Rightarrow> int \<Rightarrow> plant list \<Rightarrow> transfer \<Rightarrow> plant list" where
  "apply_transfer m company_name y result t =
     (if acquirer t = company_name \<and> y < year_acquired t then
        (let exclude_mask = (\<lambda>p. str_contains m (target_plant_pattern t) (p_plant_name p));
             n_excluded = length (filter exclude_mask result)
         in if 0 < n_excluded then filter (\<lambda>p. \<not> exclude_mask p) result else result)
      else result)"

definition get_company_plants :: "matching \<Rightarrow> plant list \<Rightarrow> string \<Rightarrow> int option \<Rightarrow> plant list" where
  "get_company_plants m plants_df company_name yr =
     (let pattern = company_pattern m company_name;
          result0 = filter (\<lambda>p. str_contains m pattern (p_parent p)) plants_df;
          result1 = (case yr of
                       None \<Rightarrow> result0
                     | Some y \<Rightarrow>
                         if result0 = [] then result0
                         else foldl (apply_transfer m company_name y) result0 (OWNERSHIP_TRANSFERS m))
      in if result1 = [] then
           (case COMPANY_PLANT_NAME_PATTERNS m company_name of
              Some name_pattern \<Rightarrow> filter (\<lambda>p. str_contains m name_pattern (p_plant_name p)) plants_df
            | None \<Rightarrow> result1)
         else result1)"

subsection \<open>Division\<close>

text \<open>
  Every division of the allocator is modelled as Python's float division, which raises
  \<open>ZeroDivisionError\<close> on a zero divisor, so that a division the code does not guard
  would show as an error value.
\<close>

datatype error = ZeroDivisionError

definition py_div :: "real \<Rightarrow> real \<Rightarrow> error + real" where
  "py_div a b = (if b = 0 then Inl ZeroDivisionError else Inr (a / b))"

subsection \<open>Allocation\<close>

definition capacity_mt :: "plant \<Rightarrow> real" where
  "capacity_mt p = p_capacity_ttpa p / 1000"

text \<open>
  The state of the loop over \<open>country_production.items()\<close>: for every row of the
  breakdown its cells of the series \<open>allocated\<close> and \<open>unmatched_mask\<close>, and
  \<open>remaining_production\<close>.
\<close>

type_synonym alloc_state = "(plant \<times> real \<times> bool) list \<times> real"

definition country_step :: "string \<times> real \<Rightarrow> alloc_state \<Rightarrow> error + alloc_state" where
  "country_step item st =
     (case item of (cname, prod_mt_country) \<Rightarrow>
      case st of (rows, remaining_production) \<Rightarrow>
        (let mask = (\<lambda>(p, a, u). p_country p = Some cname);
             country_cap = sum_list (map (\<lambda>(p, a, u). capacity_mt p) (filter mask rows))
         in if 0 < country_cap \<and> list_ex mask rows then
              (case py_div prod_mt_country country_cap of
                 Inl e \<Rightarrow> Inl e
               | Inr country_ur \<Rightarrow>
                   Inr (map (\<lambda>(p, a, u). if p_country p = Some cname
                                          then (p, capacity_mt p * country_ur, False)
                                          else (p, a, u)) rows,
                        remaining_production - prod_mt_country))
            else Inr st))"

fun country_loop :: "(string \<times> real) list \<Rightarrow> alloc_state \<Rightarrow> error + alloc_state" where
  "country_loop [] st = Inr st"
| "country_loop (item # items) st =
     (case country_step item st of
        Inl e \<Rightarrow> Inl e
      | Inr st' \<Rightarrow> country_loop items st')"

definition allocate_residual :: "alloc_state \<Rightarrow> error + real list" where
  "allocate_residual st =
     (case st of (rows, remaining_production) \<Rightarrow>
        if 0 < remaining_production \<and> list_ex (\<lambda>(p, a, u). u) rows then
          (let unmatched_cap = sum_list (map (\<lambda>(p, a, u). capacity_mt p)
                                              (filter (\<lambda>(p, a, u). u) rows))
           in if 0 < unmatched_cap then
                (case py_div remaining_production unmatched_cap of
                   Inl e \<Rightarrow> Inl e
                 | Inr residual_ur \<Rightarrow>
                     Inr (map (\<lambda>(p, a, u). if u then capacity_mt p * residual_ur else a) rows))
              else Inr (map (\<lambda>(p, a, u). a) rows))
        else Inr (map (\<lambda>(p, a, u). a) rows))"

text \<open>
  The column \<open>allocated_production_mt\<close>: country-level allocation when
  \<open>country_production\<close> is a non-empty dictionary (an association list in insertion
  order), the uniform utilization rate otherwise.
\<close>

definition allocate ::
  "plant list \<Rightarrow> real \<Rightarrow> real \<Rightarrow> (string \<times> real) list option \<Rightarrow> error + real list"
where
  "allocate company_plants prod_mt ur country_production =
     (case country_production of
        None \<Rightarrow> Inr (map (\<lambda>p. capacity_mt p * ur) company_plants)
      | Some [] \<Rightarrow> Inr (map (\<lambda>p. capacity_mt p * ur) company_plants)
      | Some items \<Rightarrow>
          (case country_loop items (map (\<lambda>p. (p, 0, True)) company_plants, prod_mt) of
             Inl e \<Rightarrow> Inl e
           | Inr st \<Rightarrow> allocate_residual st))"

record breakdown_row =
  b_plant_id :: string
  b_plant_name :: "string option"
  b_country :: "string option"
  b_process :: string
  b_capacity_ttpa :: real
  b_ef :: real
  b_capacity_mt :: real
  b_allocated_production_mt :: real
  b_emissions_mt :: real

record calc_result =
  res_company :: string
  res_production_mt :: real
  res_total_capacity_mt :: real
  res_utilization_rate :: real
  res_emissions_mt :: real
  res_weighted_ef :: real
  res_n_plants :: nat
  res_plant_breakdown :: "breakdown_row list"

text \<open>\<open>str(r["country"])\<close>: a missing cell prints as \<open>nan\<close>.\<close>

definition str_of_cell :: "string option \<Rightarrow> string" where
  "str_of_cell c = (case c of Some s \<Rightarrow> s | None \<Rightarrow> ''nan'')"

definition breakdown_of ::
  "(string \<Rightarrow> string \<Rightarrow> int option \<Rightarrow> real) \<Rightarrow> int option \<Rightarrow> plant \<Rightarrow> real \<Rightarrow> breakdown_row"
where
  "breakdown_of get_plant_ef yr p allocated =
     (let ef = (case yr of
                  None \<Rightarrow> p_ef p
                | Some y \<Rightarrow> get_plant_ef (str_of_cell (p_country p)) (p_process p) (Some y))
      in \<lparr>b_plant_id = p_plant_id p, b_plant_name = p_plant_name p, b_country = p_country p,
          b_process = p_process p, b_capacity_ttpa = p_capacity_ttpa p, b_ef = ef,
          b_capacity_mt = capacity_mt p, b_allocated_production_mt = allocated,
          b_emissions_mt = allocated * ef\<rparr>)"

text \<open>
  \<open>calculate_company_emissions\<close>. \<open>Inr None\<close> is the "no data" result (Python's
  \<open>None\<close>), \<open>Inl ZeroDivisionError\<close> a division by zero.
\<close>

definition calculate_company_emissions ::
  "matching \<Rightarrow> (string \<Rightarrow> string \<Rightarrow> int option \<Rightarrow> real) \<Rightarrow> plant list \<Rightarrow> string \<Rightarrow> real \<Rightarrow> int option
     \<Rightarrow> (string \<times> real) list option \<Rightarrow> error + calc_result option"
where
  "calculate_company_emissions m get_plant_ef plants_df company_name prod_mt yr country_production =
     (let company_plants = get_company_plants m plants_df company_name yr in
      if company_plants = [] then Inr None
      else
        (let total_capacity_mt = sum_list (map p_capacity_ttpa company_plants) / 1000 in
         if total_capacity_mt \<le> 0 then Inr None
         else
           (case py_div prod_mt total_capacity_mt of
              Inl e \<Rightarrow> Inl e
            | Inr ur \<Rightarrow>
               (case allocate company_plants prod_mt ur country_production of
                  Inl e \<Rightarrow> Inl e
                | Inr allocated \<Rightarrow>
                   (let breakdown = map (\<lambda>(p, a). breakdown_of get_plant_ef yr p a)
                                        (zip company_plants allocated);
                        total_emissions = sum_list (map b_emissions_mt breakdown)
                    in case (if 0 < prod_mt then py_div total_emissions prod_mt else Inr 0.0) of
                         Inl e \<Rightarrow> Inl e
                       | Inr weighted_ef \<Rightarrow>
                           Inr (Some \<lparr>res_company = company_name,
                                      res_production_mt = prod_mt,
                                      res_total_capacity_mt = round_nd total_capacity_mt 3,
                                      res_utilization_rate = round_nd ur 4,
                                      res_emissions_mt = round_nd total_emissions 3,
                                      res_weighted_ef = round_nd weighted_ef 3,
                                      res_n_plants = length company_plants,
                                      res_plant_breakdown = breakdown\<rparr>))))))"

section \<open>Multi-source reconciliation (apa\_calculator.py)\<close>

text \<open>
  \<open>drop_duplicates(subset=..., keep="first")\<close> and \<open>Series.unique()\<close>: the first row
  of every key stays, in the order of the frame.
\<close>

primrec keep_first :: "('a \<Rightarrow> 'k) \<Rightarrow> 'k list \<Rightarrow> 'a list \<Rightarrow> 'a list" where
  "keep_first key seen [] = []"
| "keep_first key seen (x # xs) =
     (if key x \<in> set seen then keep_first key seen xs
      else x # keep_first key (key x # seen) xs)"

definition drop_duplicates :: "('a \<Rightarrow> 'k) \<Rightarrow> 'a list \<Rightarrow> 'a list" where
  "drop_duplicates key xs = keep_first key [] xs"

definition unique :: "'a list \<Rightarrow> 'a list" where
  "unique xs = drop_duplicates (\<lambda>x. x) xs"

text \<open>A row of a production frame: company, year, production\_mt, production\_source.\<close>

record observation =
  obs_company :: string
  obs_year :: int
  obs_production_mt :: real
  obs_production_source :: string







subsection \<open>Gap filling from capacity\<close>

text \<open>Capacity in Mt of the company's plants active in a year.\<close>

definition company_cap_mt :: "matching \<Rightarrow> plant list \<Rightarrow> string \<Rightarrow> int \<Rightarrow> real" where
  "company_cap_mt m all_plants company_name yr =
     (let year_plants = get_plants_for_year all_plants yr;
          comp_plants = get_company_plants m year_plants company_name (Some yr)
      in sum_list (map p_capacity_ttpa comp_plants) / 1000)"

text \<open>
  The list \<open>ur_samples\<close> of one company. The division is guarded by \<open>cap_mt > 0\<close> in
  the code and written as a plain division here.
\<close>

definition ur_samples ::
  "matching \<Rightarrow> plant list \<Rightarrow> string \<Rightarrow> observation list \<Rightarrow> (int \<times> real) list"
where
  "ur_samples m all_plants company_name comp_prod =
     concat (map (\<lambda>pr.
       (let yr = obs_year pr;
            cap_mt = company_cap_mt m all_plants company_name yr
        in if 0 < cap_mt then
             (let ur = obs_production_mt pr / cap_mt in
              if 0.1 \<le> ur \<and> ur \<le> 1.5 then [(yr, ur)] else [])
           else [])) comp_prod)"

definition estimate_company ::
  "matching \<Rightarrow> plant list \<Rightarrow> observation list \<Rightarrow> int list \<Rightarrow> string \<Rightarrow> observation list"
where
  "estimate_company m all_plants production fill_years company_name =
     (let existing_keys = map (\<lambda>r. (obs_company r, obs_year r)) production;
          comp_prod = filter (\<lambda>r. obs_company r = company_name) production;
          samples = ur_samples m all_plants company_name comp_prod
      in if samples = [] then []
         else
           (let earliest = take 3 (sort_key fst samples);
                avg_ur = sum_list (map snd earliest) / of_nat (length earliest)
            in concat (map (\<lambda>yr.
                 if (company_name, yr) \<in> set existing_keys then []
                 else
                   (let cap_mt = company_cap_mt m all_plants company_name yr in
                    if cap_mt \<le> 0 then []
                    else [\<lparr>obs_company = company_name, obs_year = yr,
                           obs_production_mt = round_nd (cap_mt * avg_ur) 3,
                           obs_production_source = ''capacity_estimate''\<rparr>])) fill_years)))"

definition estimate_production_from_capacity ::
  "matching \<Rightarrow> plant list \<Rightarrow> observation list \<Rightarrow> int list \<Rightarrow> observation list"
where
  "estimate_production_from_capacity m all_plants production fill_years =
     (if all_plants = [] \<or> production = [] then []
      else concat (map (estimate_company m all_plants production fill_years)
                       (unique (map obs_company production))))"

subsection \<open>The full run\<close>

record apa_result =
  out_company :: string
  out_year :: int
  out_production_mt :: real
  out_emissions_mt :: real
  out_weighted_ef :: real
  out_utilization_rate :: real
  out_n_plants :: nat
  out_total_capacity_mt :: real
  out_production_source :: string

text \<open>
  The body of the loop of \<open>run_apa_all\<close> for one production row: the rows it appends to
  \<open>results\<close>, none when there is no data or when the row is skipped.
\<close>

definition apa_record ::
  "matching \<Rightarrow> (string \<Rightarrow> string \<Rightarrow> int option \<Rightarrow> real) \<Rightarrow> plant list
     \<Rightarrow> (string \<times> int \<rightharpoonup> (string \<times> real) list) \<Rightarrow> observation \<Rightarrow> error + apa_result list"
where
  "apa_record m get_plant_ef all_plants country_prod_map row =
     (let company_name = obs_company row;
          yr = obs_year row;
          prod_mt = obs_production_mt row;
          year_plants = get_plants_for_year all_plants yr;
          country_prod = country_prod_map (company_name, yr)
      in case calculate_company_emissions m get_plant_ef year_plants company_name prod_mt (Some yr)
                country_prod of
           Inl e \<Rightarrow> Inl e
         | Inr None \<Rightarrow> Inr []
         | Inr (Some result) \<Rightarrow>
             if 1.5 < res_utilization_rate result then Inr []
             else Inr [\<lparr>out_company = company_name, out_year = yr, out_production_mt = prod_mt,
                        out_emissions_mt = res_emissions_mt result,
                        out_weighted_ef = res_weighted_ef result,
                        out_utilization_rate = res_utilization_rate result,
                        out_n_plants = res_n_plants result,
                        out_total_capacity_mt = res_total_capacity_mt result,
                        out_production_source = obs_production_source row\<rparr>])"

fun apa_loop ::
  "(observation \<Rightarrow> error + apa_result list) \<Rightarrow> observation list \<Rightarrow> error + apa_result list"
where
  "apa_loop body [] = Inr []"
| "apa_loop body (row # rows) =
     (case body row of
        Inl e \<Rightarrow> Inl e
      | Inr out \<Rightarrow>
          (case apa_loop body rows of
             Inl e \<Rightarrow> Inl e
           | Inr rest \<Rightarrow> Inr (out @ rest)))"

text \<open>
  \<open>run_apa_all\<close>, with the loaded plant frame, the output of \<open>load_production_data\<close>
  and the country-level map as arguments.
\<close>

definition run_apa_all ::
  "matching \<Rightarrow> (string \<Rightarrow> string \<Rightarrow> int option \<Rightarrow> real) \<Rightarrow> plant list \<Rightarrow> observation list
     \<Rightarrow> (string \<times> int \<rightharpoonup> (string \<times> real) list) \<Rightarrow> error + apa_result list"
where
  "run_apa_all m get_plant_ef all_plants production country_prod_map =
     (if all_plants = [] then Inr []
      else if production = [] then Inr []
      else
        (let estimated = estimate_production_from_capacity m all_plants production [2014..2019];
             production' = production @ estimated
         in case apa_loop (apa_record m get_plant_ef all_plants country_prod_map) production' of
              Inl e \<Rightarrow> Inl e
            | Inr results \<Rightarrow> Inr (sort_key (\<lambda>r. (out_company r, out_year r)) results)))"

section \<open>Quality flags at integration (integrate.py)\<close>

text \<open>
  A row of the combined long-format frame and an entry of \<open>EXCLUDE_RULES\<close>; every
  entry of the source has the four keys company, year, metric and source. The rule list
  is an argument of the model.
\<close>

record source_row =
  sr_company :: string
  sr_year :: int
  sr_metric :: string
  sr_value :: real
  sr_source :: string
  quality_flag :: string

record exclude_rule =
  rule_company :: string
  rule_year :: int
  rule_metric :: string
  rule_source :: string

definition rule_matches :: "exclude_rule \<Rightarrow> source_row \<Rightarrow> bool" where
  "rule_matches rule r =
     (sr_company r = rule_company rule \<and> sr_year r = rule_year rule \<and>
      sr_metric r = rule_metric rule \<and> sr_source r = rule_source rule)"

definition flag_where_empty :: "bool \<Rightarrow> string \<Rightarrow> source_row \<Rightarrow> source_row" where
  "flag_where_empty cond label r =
     (if cond then (if quality_flag r \<noteq> [] then r else r\<lparr>quality_flag := label\<rparr>) else r)"

definition apply_quality_filters :: "exclude_rule list \<Rightarrow> source_row list \<Rightarrow> source_row list" where
  "apply_quality_filters rules df =
     (let df0 = map (\<lambda>r. r\<lparr>quality_flag := []\<rparr>) df;
          df1 = foldl (\<lambda>d rule. map (\<lambda>r. if rule_matches rule r
                                            then r\<lparr>quality_flag := ''excluded: known extraction error''\<rparr>
                                            else r) d) df0 rules;
          df2 = map (\<lambda>r. flag_where_empty (sr_metric r = ''production_mt'' \<and> 100 < sr_value r)
                            ''suspicious: production > 100 Mt'' r) df1;
          df3 = map (\<lambda>r. flag_where_empty (sr_metric r = ''emissions_mt_co2'' \<and> 200 < sr_value r)
                            ''suspicious: emissions > 200 Mt'' r) df2
      in df3)"

subsection \<open>Quantities used to state the allocation property\<close>

text \<open>
  These three functions do not occur in the source; they name, in terms of the inputs,
  what the country-level loop uses: the capacity of the company's plants in a country,
  the sub-targets the loop applies (those of a country where the company has positive
  capacity), and the capacity of the plants in no such country.
\<close>

definition country_capacity :: "plant list \<Rightarrow> string \<Rightarrow> real" where
  "country_capacity ps cname =
     sum_list (map capacity_mt (filter (\<lambda>p. p_country p = Some cname) ps))"

definition applied_targets :: "plant list \<Rightarrow> (string \<times> real) list \<Rightarrow> (string \<times> real) list" where
  "applied_targets ps items = filter (\<lambda>item. 0 < country_capacity ps (fst item)) items"

definition unassigned_capacity :: "plant list \<Rightarrow> (string \<times> real) list \<Rightarrow> real" where
  "unassigned_capacity ps items =
     sum_list (map capacity_mt
       (filter (\<lambda>p. p_country p \<notin> set (map (\<lambda>item. Some (fst item)) (applied_targets ps items))) ps))"

text \<open>The sum of the column \<open>allocated_production_mt\<close> of a result, when there is one.\<close>

definition allocated_total :: "error + calc_result option \<Rightarrow> real option" where
  "allocated_total r =
     (case r of
        Inr (Some res) \<Rightarrow> Some (sum_list (map b_allocated_production_mt (res_plant_breakdown res)))
      | _ \<Rightarrow> None)"

subsection \<open>Invariant of the country-level loop\<close>

text \<open>
  Auxiliary notions for the proofs: the columns of a loop state, the update one applied
  sub-target makes, and the invariant that holds after the items \<open>seen\<close>.
\<close>

definition st_alloc :: "(plant \<times> real \<times> bool) list \<Rightarrow> real list" where
  "st_alloc rows = map (\<lambda>(p, a, u). a) rows"

definition st_cap :: "(plant \<times> real \<times> bool) list \<Rightarrow> string \<Rightarrow> real" where
  "st_cap rows c = sum_list (map (\<lambda>(p, a, u). capacity_mt p)
     (filter (\<lambda>(p, a, u). p_country p = Some c) rows))"

definition st_upd :: "string \<Rightarrow> real \<Rightarrow> (plant \<times> real \<times> bool) list \<Rightarrow> (plant \<times> real \<times> bool) list" where
  "st_upd c k rows = map (\<lambda>(p, a, u). if p_country p = Some c
                                          then (p, capacity_mt p * k, False)
                                          else (p, a, u)) rows"

definition alloc_inv ::
  "plant list \<Rightarrow> real \<Rightarrow> (string \<times> real) list \<Rightarrow> (plant \<times> real \<times> bool) list \<Rightarrow> real \<Rightarrow> bool"
where
  "alloc_inv ps P seen rows rem \<longleftrightarrow>
     map fst rows = ps
     \<and> (\<forall>(p, a, u) \<in> set rows.
           (u \<longrightarrow> a = 0)
           \<and> (u \<longleftrightarrow> p_country p \<notin> set (map (\<lambda>item. Some (fst item)) (applied_targets ps seen))))
     \<and> sum_list (st_alloc rows) + rem = P
     \<and> rem = P - sum_list (map snd (applied_targets ps seen))"

definition st_ucap :: "(plant \<times> real \<times> bool) list \<Rightarrow> real" where
  "st_ucap rows = sum_list (map (\<lambda>(p, a, u). capacity_mt p) (filter (\<lambda>(p, a, u). u) rows))"

text \<open>The utilization rate a result reports, when there is a result.\<close>

definition reported_utilization :: "error + calc_result option \<Rightarrow> real option" where
  "reported_utilization r =
     (case r of
        Inr (Some res) \<Rightarrow> Some (res_utilization_rate res)
      | _ \<Rightarrow> None)"

text \<open>A row of the long-format frame without its quality flag.\<close>

definition strip_flag :: "source_row \<Rightarrow> source_row" where
  "strip_flag r = r\<lparr>quality_flag := []\<rparr>"

section \<open>Example data\<close>

text \<open>
  A small fleet used to instantiate the theorems below. The matcher of the examples
  is a case-insensitive substring search, which is what the regular-expression search
  does for a pattern without metacharacters.
\<close>

definition example_matching :: matching where
  "example_matching =
     \<lparr>contains = (\<lambda>p s. str_in (lower p) (lower s)),
      COMPANY_GEM_PATTERNS = [''POSCO Holdings'' \<mapsto> ''Posco''],
      COMPANY_PLANT_NAME_PATTERNS = Map.empty,
      OWNERSHIP_TRANSFERS = []\<rparr>"

definition example_ef :: "string \<Rightarrow> string \<Rightarrow> int option \<Rightarrow> real" where
  "example_ef c p y = (if p = ''BF-BOF'' then 2 else 0.4)"

definition u_operating :: gem_unit where
  "u_operating =
     \<lparr>gem_unit_id = ''U1'', unit_name = ''BOF 1'', plant_name = ''Pohang'',
      unit_status = ''operating'', unit_type = ''bof'', country = ''South Korea'',
      process_type = ''BF-BOF'', parent = Some ''POSCO Holdings'', start_year = Some 1990,
      pre_retirement_announced_year = None, retired_year = None,
      capacity_ttpa = Some 10000\<rparr>"

definition u_pre_retirement :: gem_unit where
  "u_pre_retirement =
     u_operating\<lparr>gem_unit_id := ''U2'', unit_status := ''operating pre-retirement'',
       pre_retirement_announced_year := Some 2021, capacity_ttpa := Some 5000\<rparr>"

definition u_construction :: gem_unit where
  "u_construction =
     u_operating\<lparr>gem_unit_id := ''U3'', unit_status := ''construction'', unit_type := ''eaf'',
       process_type := ''Scrap-EAF'', start_year := Some 2026, capacity_ttpa := Some 2000\<rparr>"

definition u_announced :: gem_unit where
  "u_announced =
     u_construction\<lparr>gem_unit_id := ''U4'', unit_status := ''announced'',
       start_year := Some 2025\<rparr>"

definition u_cancelled :: gem_unit where
  "u_cancelled = u_operating\<lparr>gem_unit_id := ''U5'', unit_status := ''cancelled''\<rparr>"

definition u_retired :: gem_unit where
  "u_retired =
     u_operating\<lparr>gem_unit_id := ''U6'', unit_status := ''retired'',
       pre_retirement_announced_year := Some 2015\<rparr>"

definition example_units :: "gem_unit list" where
  "example_units = [u_operating, u_pre_retirement, u_construction, u_announced, u_cancelled]"

definition p_operating :: plant where
  "p_operating =
     \<lparr>p_plant_id = ''P1'', p_plant_name = Some ''Pohang'', p_country = Some ''South Korea'',
      p_parent = Some ''POSCO Holdings'', p_status = Some ''operating'',
      p_capacity_ttpa = 10000, p_process = ''BF-BOF'', p_ef = 2, p_start_year = Some 2000\<rparr>"

definition p_scrap :: plant where
  "p_scrap =
     p_operating\<lparr>p_plant_id := ''P2'', p_plant_name := Some ''Gwangyang'',
       p_capacity_ttpa := 5000, p_process := ''EAF'', p_ef := 0.4\<rparr>"

definition p_announced :: plant where
  "p_announced = p_operating\<lparr>p_plant_id := ''P3'', p_status := Some ''announced''\<rparr>"

definition p_cancelled :: plant where
  "p_cancelled = p_operating\<lparr>p_plant_id := ''P4'', p_status := Some ''cancelled''\<rparr>"

definition example_plants :: "plant list" where
  "example_plants = [p_operating, p_scrap, p_announced, p_cancelled]"

definition u_pre_retirement_undated :: gem_unit where
  "u_pre_retirement_undated =
     u_pre_retirement\<lparr>gem_unit_id := ''U7'', pre_retirement_announced_year := None\<rparr>"

text \<open>
  A company with one operating unit of 1234.6 ttpa whose historical production and
  emissions of 2024 equal what the unit-level model computes for that year.
\<close>

definition u_single :: gem_unit where
  "u_single = u_operating\<lparr>capacity_ttpa := Some 1234.6\<rparr>"

definition single_apa_row :: apa_row where
  "single_apa_row =
     \<lparr>apa_company = ''POSCO Holdings'', apa_year = 2024,
      apa_emissions_mt = Some 2.4692, apa_production_mt = Some 1.2346\<rparr>"

definition single_detail :: "detail_row list" where
  "single_detail =
     [\<lparr>detail_company = ''POSCO Holdings'', detail_year = 2024,
       detail_country = ''South Korea'', detail_process_type = ''BF-BOF'',
       detail_unit_type = ''bof'', detail_gem_unit_id = ''U1'', detail_unit_name = ''BOF 1'',
       detail_plant_name = ''Pohang'', detail_unit_status = ''operating'',
       detail_capacity_ttpa = 1234.6, detail_production_mt = 1.2346,
       detail_emissions_mt = 2.4692\<rparr>]"

definition single_raw :: "annual_raw list" where
  "single_raw =
     [\<lparr>raw_company = ''POSCO Holdings'', raw_year = 2024, raw_emissions = 2.4692,
       raw_production = 1.2346, raw_n_active_units = 1, raw_active_capacity_ttpa = 1234.6\<rparr>]"

definition single_annual :: "annual_row list" where
  "single_annual =
     [\<lparr>annual_company = ''POSCO Holdings'', annual_year = 2024, emissions_raw = 2.4692,
       production_raw = 1.2346, n_active_units = 1, active_capacity_ttpa = 1234.6,
       annual_calibrated_ur = 1, annual_emissions_mt = 2.469, annual_production_mt = 1.235,
       apa_anchored = True, annual_scale_factor = 1\<rparr>]"

definition p_abroad :: plant where
  "p_abroad = p_scrap\<lparr>p_plant_id := ''P5'', p_plant_name := Some ''Big River'',
     p_country := Some ''United States''\<rparr>"

definition p_idle :: plant where
  "p_idle = p_operating\<lparr>p_plant_id := ''P6'', p_capacity_ttpa := 0\<rparr>"






text \<open>
  A fleet that starts in 2020, with one production figure inside and one outside the
  utilization band, and a reported emissions figure above the integration threshold.
\<close>

definition p_recent :: plant where
  "p_recent = p_operating\<lparr>p_start_year := Some 2020\<rparr>"

definition obs_plausible :: observation where
  "obs_plausible =
     \<lparr>obs_company = ''POSCO Holdings'', obs_year = 2024, obs_production_mt = 6,
      obs_production_source = ''curated_reports''\<rparr>"

definition obs_implausible :: observation where
  "obs_implausible = obs_plausible\<lparr>obs_production_mt := 20\<rparr>"

definition no_country_production :: "string \<times> int \<rightharpoonup> (string \<times> real) list" where
  "no_country_production = Map.empty"

definition sr_high :: source_row where
  "sr_high =
     \<lparr>sr_company = ''POSCO Holdings'', sr_year = 2024, sr_metric = ''emissions_mt_co2'',
      sr_value = 250, sr_source = ''apa'', quality_flag = []\<rparr>"

definition out_plausible :: apa_result where
  "out_plausible =
     \<lparr>out_company = ''POSCO Holdings'', out_year = 2024, out_production_mt = 6,
      out_emissions_mt = 12, out_weighted_ef = 2, out_utilization_rate = 3 / 5,
      out_n_plants = 1, out_total_capacity_mt = 10,
      out_production_source = ''curated_reports''\<rparr>"

text \<open>
  Historical rows of 2024 for a company whose only unit has 10 Mt of capacity: a
  production inside the band, below it, above it, and missing.
\<close>

definition apa_mid :: apa_row where
  "apa_mid = \<lparr>apa_company = ''POSCO Holdings'', apa_year = 2024,
              apa_emissions_mt = Some 12, apa_production_mt = Some 6\<rparr>"

definition apa_low :: apa_row where
  "apa_low = apa_mid\<lparr>apa_production_mt := Some 1\<rparr>"

definition apa_high :: apa_row where
  "apa_high = apa_mid\<lparr>apa_production_mt := Some 20\<rparr>"

definition apa_missing :: apa_row where
  "apa_missing = apa_mid\<lparr>apa_production_mt := None\<rparr>"

section \<open>Lifecycle filter\<close>

lemma unit_detail_row:
  "r \<in> set (unit_detail ef c ur y u cy) \<Longrightarrow>
     detail_unit_status r = unit_status u \<and> unit_is_active u y cy"
  by (auto simp: unit_detail_def Let_def split: if_splits option.splits)

lemma in_build_plant_level_tp:
  "r \<in> set (build_plant_level_tp m ef units c b e ur skip) \<longleftrightarrow>
     (\<exists>y \<in> {b..e}. \<exists>u \<in> set (match_units_to_company m units c).
        r \<in> set (unit_detail ef c ur y u (if skip then None else infer_close_year u)))"
  by (auto simp: build_plant_level_tp_def Let_def)

lemma cancelled_not_active:
  "lower (unit_status u) = ''cancelled'' \<Longrightarrow> \<not> unit_is_active u y cy"
  by (simp add: unit_is_active_def)

lemma active_without_closure:
  "unit_is_active u y cy \<Longrightarrow> unit_is_active u y None"
  by (auto simp: unit_is_active_def Let_def split: if_splits option.splits)

lemma unit_detail_without_closure:
  "r \<in> set (unit_detail ef c ur y u cy) \<Longrightarrow> r \<in> set (unit_detail ef c ur y u None)"
  using active_without_closure [of u y cy]
  by (auto simp: unit_detail_def Let_def split: if_splits option.splits)

lemma str_in_announced: "\<not> str_in ''pre-retirement'' ''announced''"
  by code_simp

lemma str_in_construction: "\<not> str_in ''pre-retirement'' ''construction''"
  by code_simp

lemma addition_no_closure:
  "lower (unit_status u) \<in> set [''construction'', ''announced''] \<Longrightarrow> infer_close_year u = None"
  using str_in_announced str_in_construction
  by (auto simp: infer_close_year_def Let_def)

text \<open>
  C4. A unit whose status is cancelled is never active: \<open>_unit_is_active\<close> rejects it
  for every year and every close year, so no row of the planned-transition or of the
  no-closure detail frame belongs to a cancelled unit, and the historical year filter
  \<open>get_plants_for_year\<close> keeps no cancelled plant.
\<close>

theorem cancelled_never_active:
  "(lower (unit_status u) = ''cancelled'' \<longrightarrow> \<not> unit_is_active u y cy)
   \<and> (\<forall>r \<in> set (build_plant_level_tp m ef units c b e ur skip).
         lower (detail_unit_status r) \<noteq> ''cancelled'')
   \<and> (\<forall>p \<in> set (get_plants_for_year all_plants y).
         map_option lower (p_status p) \<noteq> Some ''cancelled'')"
proof (intro conjI ballI impI)
  assume "lower (unit_status u) = ''cancelled''"
  then show "\<not> unit_is_active u y cy" by (rule cancelled_not_active)
next
  fix r assume "r \<in> set (build_plant_level_tp m ef units c b e ur skip)"
  then obtain y' u' cy' where "r \<in> set (unit_detail ef c ur y' u' cy')"
    unfolding in_build_plant_level_tp by blast
  then have "detail_unit_status r = unit_status u'" "unit_is_active u' y' cy'"
    using unit_detail_row by blast+
  then show "lower (detail_unit_status r) \<noteq> ''cancelled''"
    using cancelled_not_active by force
next
  fix p assume "p \<in> set (get_plants_for_year all_plants y)"
  then show "map_option lower (p_status p) \<noteq> Some ''cancelled''"
    by (auto simp: get_plants_for_year_def Let_def)
qed

theorem cancelled_never_active_witness:
  "lower (unit_status u_cancelled) = ''cancelled''
   \<and> \<not> unit_is_active u_cancelled 2030 None
   \<and> map detail_gem_unit_id
        (build_plant_level_tp example_matching example_ef example_units ''POSCO Holdings''
           2024 2024 (4 / 5) True) = [''U1'', ''U2'']
   \<and> list_all (\<lambda>r. lower (detail_unit_status r) \<noteq> ''cancelled'')
        (build_plant_level_tp example_matching example_ef example_units
           ''POSCO Holdings'' 2024 2024 (4 / 5) True)
   \<and> map p_plant_id (get_plants_for_year example_plants 2030) = [''P1'', ''P2'']
   \<and> list_all (\<lambda>p. map_option lower (p_status p) \<noteq> Some ''cancelled'')
        (get_plants_for_year example_plants 2030)"
proof -
  have e1: "lower (unit_status u_cancelled) = ''cancelled''"
    by code_simp
  have e2: "map detail_gem_unit_id
        (build_plant_level_tp example_matching example_ef example_units ''POSCO Holdings''
           2024 2024 (4 / 5) True) = [''U1'', ''U2'']"
    by code_simp
  have e3: "map p_plant_id (get_plants_for_year example_plants 2030) = [''P1'', ''P2'']"
    by code_simp
  show ?thesis
    unfolding list_all_iff
    using e1 e2 e3
      cancelled_never_active [of u_cancelled 2030 None example_matching example_ef example_units
        "''POSCO Holdings''" 2024 2024 "4 / 5" True example_plants]
    by blast
qed

lemma build_subset:
  "set (build_plant_level_tp m ef units c b e ur False)
     \<subseteq> set (build_plant_level_tp m ef units c b e ur True)"
  unfolding in_build_plant_level_tp subset_iff
  using unit_detail_without_closure by fastforce

lemma filter_unit_detail_additions:
  "filter (\<lambda>r. lower (detail_unit_status r) \<in> set [''construction'', ''announced''])
      (unit_detail ef c ur y u (infer_close_year u))
   = filter (\<lambda>r. lower (detail_unit_status r) \<in> set [''construction'', ''announced''])
      (unit_detail ef c ur y u None)"
proof (cases "lower (unit_status u) \<in> set [''construction'', ''announced'']")
  case True
  then show ?thesis by (simp only: addition_no_closure)
next
  case False
  have "\<And>cy. filter (\<lambda>r. lower (detail_unit_status r) \<in> set [''construction'', ''announced''])
      (unit_detail ef c ur y u cy) = []"
    using False unit_detail_row [of _ ef c ur y u]
    by (auto simp: filter_empty_conv)
  then show ?thesis by simp
qed

lemma build_additions:
  "filter (\<lambda>r. lower (detail_unit_status r) \<in> set [''construction'', ''announced''])
      (build_plant_level_tp m ef units c b e ur False)
   = filter (\<lambda>r. lower (detail_unit_status r) \<in> set [''construction'', ''announced''])
      (build_plant_level_tp m ef units c b e ur True)"
  by (simp only: build_plant_level_tp_def Let_def filter_concat map_map o_def
        filter_unit_detail_additions if_False if_True)

text \<open>
  C5. A unit active under the planned-transition policy in a year is active under the
  no-closure policy in that year, so every row of the planned-transition detail frame is
  a row of the no-closure frame (also through \<open>generate_company_tp\<close> and
  \<open>generate_company_bau\<close>, which calibrate the same utilization rate); the rows of
  construction and announced units are the same list under both policies.
\<close>

theorem planned_transition_subset_no_closure:
  "(unit_is_active u y (infer_close_year u) \<longrightarrow> unit_is_active u y None)
   \<and> set (build_plant_level_tp m ef units c b e ur False)
        \<subseteq> set (build_plant_level_tp m ef units c b e ur True)
   \<and> filter (\<lambda>r. lower (detail_unit_status r) \<in> set [''construction'', ''announced''])
          (build_plant_level_tp m ef units c b e ur False)
      = filter (\<lambda>r. lower (detail_unit_status r) \<in> set [''construction'', ''announced''])
          (build_plant_level_tp m ef units c b e ur True)
   \<and> set (snd (generate_company_tp m ef units c apa_df b e))
        \<subseteq> set (snd (generate_company_bau m ef units c apa_df b e))"
proof (intro conjI impI)
  assume "unit_is_active u y (infer_close_year u)"
  then show "unit_is_active u y None" by (rule active_without_closure)
next
  show "set (build_plant_level_tp m ef units c b e ur False)
        \<subseteq> set (build_plant_level_tp m ef units c b e ur True)"
    by (rule build_subset)
next
  show "filter (\<lambda>r. lower (detail_unit_status r) \<in> set [''construction'', ''announced''])
          (build_plant_level_tp m ef units c b e ur False)
      = filter (\<lambda>r. lower (detail_unit_status r) \<in> set [''construction'', ''announced''])
          (build_plant_level_tp m ef units c b e ur True)"
    by (rule build_additions)
next
  show "set (snd (generate_company_tp m ef units c apa_df b e))
        \<subseteq> set (snd (generate_company_bau m ef units c apa_df b e))"
  proof -
    have "build_plant_level_tp m ef units c b e ur' True = [] \<Longrightarrow>
       build_plant_level_tp m ef units c b e ur' False = []" for ur'
      using build_subset [of m ef units c b e ur'] by simp
    then show ?thesis
      using build_subset [of m ef units c b e]
      by (auto simp: generate_company_tp_def generate_company_bau_def generate_company_def Let_def
            split: option.splits)
  qed
qed

theorem planned_transition_subset_no_closure_witness:
  "unit_is_active u_pre_retirement 2025 (infer_close_year u_pre_retirement)
   \<and> unit_is_active u_pre_retirement 2025 None
   \<and> map detail_gem_unit_id
        (build_plant_level_tp example_matching example_ef example_units ''POSCO Holdings''
           2026 2026 (4 / 5) False) = [''U1'', ''U3'', ''U4'']
   \<and> map detail_gem_unit_id
        (build_plant_level_tp example_matching example_ef example_units ''POSCO Holdings''
           2026 2026 (4 / 5) True) = [''U1'', ''U2'', ''U3'', ''U4'']
   \<and> set (build_plant_level_tp example_matching example_ef example_units ''POSCO Holdings''
           2026 2026 (4 / 5) False)
        \<subseteq> set (build_plant_level_tp example_matching example_ef example_units
             ''POSCO Holdings'' 2026 2026 (4 / 5) True)"
proof -
  have e1: "unit_is_active u_pre_retirement 2025 (infer_close_year u_pre_retirement)"
    by code_simp
  have e2: "map detail_gem_unit_id
        (build_plant_level_tp example_matching example_ef example_units ''POSCO Holdings''
           2026 2026 (4 / 5) False) = [''U1'', ''U3'', ''U4'']"
    by code_simp
  have e3: "map detail_gem_unit_id
        (build_plant_level_tp example_matching example_ef example_units ''POSCO Holdings''
           2026 2026 (4 / 5) True) = [''U1'', ''U2'', ''U3'', ''U4'']"
    by code_simp
  show ?thesis
    using e1 e2 e3
      planned_transition_subset_no_closure [of u_pre_retirement 2025 example_matching
        example_ef example_units "''POSCO Holdings''" 2026 2026 "4 / 5"]
    by blast
qed

text \<open>
  C7 (as amended). A retired or mothballed unit without a retirement date closes in a
  fixed fallback year, 2023 in \<open>_infer_close_year\<close> and 2024 in the closure inventory,
  whatever its announcement year. The rule "five years after the pre-retirement
  announcement, 2030 when there is no announcement year" is the rule for a unit whose
  status contains "pre-retirement" and that has no retirement date.
\<close>

theorem retirement_year_inference:
  "(lower (unit_status u) \<in> set [''retired'', ''mothballed''] \<and> retired_year u = None \<longrightarrow>
      infer_close_year u = Some 2023 \<and> inventory_close u = (Some 2024, ''gem_status_inferred''))
   \<and> (lower (unit_status v) \<notin> set [''retired'', ''mothballed'']
        \<and> str_in ''pre-retirement'' (lower (unit_status v)) \<and> retired_year v = None
        \<and> pre_retirement_announced_year v = Some a \<longrightarrow>
           infer_close_year v = Some (a + 5)
           \<and> inventory_close v = (Some (a + 5), ''inferred_5yr_from_announcement''))
   \<and> (lower (unit_status w) \<notin> set [''retired'', ''mothballed'']
        \<and> str_in ''pre-retirement'' (lower (unit_status w)) \<and> retired_year w = None
        \<and> pre_retirement_announced_year w = None \<longrightarrow>
           infer_close_year w = Some 2030 \<and> inventory_close w = (Some 2030, ''default_2030''))"
  by (auto simp: infer_close_year_def inventory_close_def Let_def)

theorem retirement_year_inference_witness:
  "lower (unit_status u_retired) \<in> set [''retired'', ''mothballed'']
   \<and> retired_year u_retired = None
   \<and> pre_retirement_announced_year u_retired = Some 2015
   \<and> infer_close_year u_retired = Some 2023
   \<and> inventory_close u_retired = (Some 2024, ''gem_status_inferred'')
   \<and> lower (unit_status u_pre_retirement) \<notin> set [''retired'', ''mothballed'']
   \<and> str_in ''pre-retirement'' (lower (unit_status u_pre_retirement))
   \<and> retired_year u_pre_retirement = None
   \<and> pre_retirement_announced_year u_pre_retirement = Some 2021
   \<and> infer_close_year u_pre_retirement = Some (2021 + 5)
   \<and> lower (unit_status u_pre_retirement_undated) \<notin> set [''retired'', ''mothballed'']
   \<and> str_in ''pre-retirement'' (lower (unit_status u_pre_retirement_undated))
   \<and> retired_year u_pre_retirement_undated = None
   \<and> pre_retirement_announced_year u_pre_retirement_undated = None
   \<and> infer_close_year u_pre_retirement_undated = Some 2030"
proof -
  have e1: "lower (unit_status u_retired) \<in> set [''retired'', ''mothballed'']
      \<and> retired_year u_retired = None \<and> pre_retirement_announced_year u_retired = Some 2015"
    by code_simp
  have e2: "lower (unit_status u_pre_retirement) \<notin> set [''retired'', ''mothballed'']
      \<and> str_in ''pre-retirement'' (lower (unit_status u_pre_retirement))
      \<and> retired_year u_pre_retirement = None
      \<and> pre_retirement_announced_year u_pre_retirement = Some 2021"
    by code_simp
  have e3: "lower (unit_status u_pre_retirement_undated) \<notin> set [''retired'', ''mothballed'']
      \<and> str_in ''pre-retirement'' (lower (unit_status u_pre_retirement_undated))
      \<and> retired_year u_pre_retirement_undated = None
      \<and> pre_retirement_announced_year u_pre_retirement_undated = None"
    by code_simp
  show ?thesis
    using e1 e2 e3
      retirement_year_inference [of u_retired u_pre_retirement 2021 u_pre_retirement_undated]
    by blast
qed

text \<open>
  The claim as it was stated fails on a retired unit without a retirement date whose
  pre-retirement announcement was in 2015: the inferred year is 2023 (2024 in the
  inventory), not 2020.
\<close>

theorem retired_unit_counterexample:
  "lower (unit_status u_retired) = ''retired'' \<and> retired_year u_retired = None
   \<and> pre_retirement_announced_year u_retired = Some 2015
   \<and> infer_close_year u_retired \<noteq> Some (2015 + 5)
   \<and> fst (inventory_close u_retired) \<noteq> Some (2015 + 5)"
  by code_simp

text \<open>
  C8. The strict policy is the year filter \<open>get_plants_for_year\<close>: it keeps no
  announced plant in any year. The relaxed policy is \<open>_unit_is_active\<close>: an announced
  unit has no inferred closure and is active from its start year on (always, when the
  start year is missing).
\<close>

theorem announced_only_relaxed:
  "(\<forall>p \<in> set (get_plants_for_year all_plants y).
       map_option lower (p_status p) \<noteq> Some ''announced'')
   \<and> (lower (unit_status u) = ''announced'' \<longrightarrow>
        unit_is_active u y (infer_close_year u)
          = (case start_year u of Some s \<Rightarrow> s \<le> of_int y | None \<Rightarrow> True))"
proof (intro conjI ballI impI)
  fix p assume "p \<in> set (get_plants_for_year all_plants y)"
  then show "map_option lower (p_status p) \<noteq> Some ''announced''"
    by (auto simp: get_plants_for_year_def Let_def)
next
  assume a: "lower (unit_status u) = ''announced''"
  then have "infer_close_year u = None"
    by (simp add: addition_no_closure)
  with a show "unit_is_active u y (infer_close_year u)
          = (case start_year u of Some s \<Rightarrow> s \<le> of_int y | None \<Rightarrow> True)"
    by (auto simp: unit_is_active_def Let_def split: option.splits)
qed

theorem announced_only_relaxed_witness:
  "lower (unit_status u_announced) = ''announced''
   \<and> start_year u_announced = Some 2025
   \<and> unit_is_active u_announced 2030 (infer_close_year u_announced)
   \<and> map p_plant_id (get_plants_for_year example_plants 2030) = [''P1'', ''P2'']
   \<and> list_all (\<lambda>p. map_option lower (p_status p) \<noteq> Some ''announced'')
        (get_plants_for_year example_plants 2030)"
proof -
  have e1: "lower (unit_status u_announced) = ''announced''
      \<and> start_year u_announced = Some 2025"
    by code_simp
  have e2: "map p_plant_id (get_plants_for_year example_plants 2030) = [''P1'', ''P2'']"
    by code_simp
  show ?thesis
    unfolding list_all_iff
    using e1 e2 announced_only_relaxed [of example_plants 2030 u_announced]
    by simp
qed

section \<open>Calibration and anchoring\<close>

lemma single_generate:
  "generate_company_tp example_matching example_ef [u_single] ''POSCO Holdings''
       [single_apa_row] 2024 2024 = (single_annual, single_detail)"
proof -
  have e1: "match_units_to_company example_matching [u_single] ''POSCO Holdings'' = [u_single]"
    by code_simp
  have e2: "select_company_apa [single_apa_row] ''POSCO Holdings'' 2024
      = Some (single_apa_row, 2024)"
    by code_simp
  have e3: "calibrate_ur (base_capacity_mt [u_single] 2024) (apa_production_mt single_apa_row) = 1"
    by code_simp
  have e4: "build_plant_level_tp example_matching example_ef [u_single] ''POSCO Holdings''
      2024 2024 1 False = single_detail"
    by code_simp
  have e5: "aggregate_annual single_detail = single_raw"
    by code_simp
  have e6: "anchor (apa_emissions_mt single_apa_row) 2024 1 single_raw = single_annual"
    by code_simp
  have e7: "single_detail \<noteq> []"
    by (simp add: single_detail_def)
  show ?thesis
    by (simp add: generate_company_tp_def generate_company_def e1 e2 e3 e4 e5 e6 e7 Let_def)
qed

lemma calibrate_ur_band: "0.40 \<le> calibrate_ur cap p \<and> calibrate_ur cap p \<le> 1.0"
  by (auto simp: calibrate_ur_def max_def min_def split: option.splits)

lemma build_no_units:
  "match_units_to_company m units c = [] \<Longrightarrow> build_plant_level_tp m ef units c b e ur skip = []"
  by (simp add: build_plant_level_tp_def)

lemma anchor_ur_column:
  "map annual_calibrated_ur (anchor a b ur annual) = replicate (length annual) ur"
  by (simp add: anchor_def Let_def o_def map_replicate_const)

lemma generate_company_selected:
  assumes sel: "select_company_apa apa_df c b = Some (row, yb)"
  shows "snd (generate_company skip m ef units c apa_df b e)
      = build_plant_level_tp m ef units c b e
          (calibrate_ur (base_capacity_mt (match_units_to_company m units c) yb)
             (apa_production_mt row)) skip"
    and "map annual_calibrated_ur (fst (generate_company skip m ef units c apa_df b e))
      = replicate (length (aggregate_annual (snd (generate_company skip m ef units c apa_df b e))))
          (calibrate_ur (base_capacity_mt (match_units_to_company m units c) yb)
             (apa_production_mt row))"
proof -
  let ?ur = "calibrate_ur (base_capacity_mt (match_units_to_company m units c) yb)
             (apa_production_mt row)"
  let ?detail = "build_plant_level_tp m ef units c b e ?ur skip"
  have g: "generate_company skip m ef units c apa_df b e
      = (if ?detail = [] then ([], [])
         else (anchor (apa_emissions_mt row) b ?ur (aggregate_annual ?detail), ?detail))"
  proof (cases "match_units_to_company m units c = []")
    case True
    then show ?thesis
      by (simp add: generate_company_def build_no_units)
  next
    case False
    then show ?thesis
      using sel by (simp add: generate_company_def Let_def)
  qed
  show "snd (generate_company skip m ef units c apa_df b e) = ?detail"
    unfolding g by simp
  show "map annual_calibrated_ur (fst (generate_company skip m ef units c apa_df b e))
      = replicate (length (aggregate_annual (snd (generate_company skip m ef units c apa_df b e))))
          ?ur"
    unfolding g by (simp add: anchor_ur_column aggregate_annual_def)
qed

lemma generate_company_unselected:
  "select_company_apa apa_df c b = None \<Longrightarrow>
     generate_company skip m ef units c apa_df b e = ([], [])"
  by (simp add: generate_company_def Let_def)

text \<open>
  C10. When the company has a historical row, \<open>generate_company_tp\<close> and
  \<open>generate_company_bau\<close> pass one and the same rate to the plant-level projection
  and write it to the column \<open>calibrated_ur\<close> of every annual row: the historical
  production over the base-year capacity of the company's units, clipped to
  [0.40, 1.0], when both are positive, and 0.80 when the production is missing or
  either is not positive. The rate lies in [0.40, 1.0] in every case. Without a
  historical row neither function projects anything.
\<close>

theorem calibrated_ur_in_band:
  "(select_company_apa apa_df c b = Some (row, yb) \<longrightarrow>
      (let cap = base_capacity_mt (match_units_to_company m units c) yb;
           p = apa_production_mt row;
           ur = calibrate_ur cap p
       in 0.40 \<le> ur \<and> ur \<le> 1.0
          \<and> (\<forall>x. p = Some x \<and> 0 < cap \<and> 0 < x \<longrightarrow> ur = max 0.40 (min (x / cap) 1.0))
          \<and> (p = None \<or> cap \<le> 0 \<or> (\<exists>x. p = Some x \<and> x \<le> 0) \<longrightarrow> ur = 0.80)
          \<and> snd (generate_company_tp m ef units c apa_df b e)
               = build_plant_level_tp m ef units c b e ur False
          \<and> snd (generate_company_bau m ef units c apa_df b e)
               = build_plant_level_tp m ef units c b e ur True
          \<and> map annual_calibrated_ur (fst (generate_company_tp m ef units c apa_df b e))
               = replicate (length (aggregate_annual
                    (snd (generate_company_tp m ef units c apa_df b e)))) ur
          \<and> map annual_calibrated_ur (fst (generate_company_bau m ef units c apa_df b e))
               = replicate (length (aggregate_annual
                    (snd (generate_company_bau m ef units c apa_df b e)))) ur))
   \<and> (select_company_apa apa_df c b = None \<longrightarrow>
        generate_company_tp m ef units c apa_df b e = ([], [])
        \<and> generate_company_bau m ef units c apa_df b e = ([], []))"
proof (intro conjI impI)
  assume sel: "select_company_apa apa_df c b = Some (row, yb)"
  let ?cap = "base_capacity_mt (match_units_to_company m units c) yb"
  let ?p = "apa_production_mt row"
  have band: "0.40 \<le> calibrate_ur ?cap ?p \<and> calibrate_ur ?cap ?p \<le> 1.0"
    by (rule calibrate_ur_band)
  have clip: "\<forall>x. ?p = Some x \<and> 0 < ?cap \<and> 0 < x \<longrightarrow>
      calibrate_ur ?cap ?p = max 0.40 (min (x / ?cap) 1.0)"
    by (simp add: calibrate_ur_def)
  have dflt: "?p = None \<or> ?cap \<le> 0 \<or> (\<exists>x. ?p = Some x \<and> x \<le> 0) \<longrightarrow>
      calibrate_ur ?cap ?p = 0.80"
    by (auto simp: calibrate_ur_def split: option.splits)
  show "let cap = ?cap; p = ?p; ur = calibrate_ur cap p
       in 0.40 \<le> ur \<and> ur \<le> 1.0
          \<and> (\<forall>x. p = Some x \<and> 0 < cap \<and> 0 < x \<longrightarrow> ur = max 0.40 (min (x / cap) 1.0))
          \<and> (p = None \<or> cap \<le> 0 \<or> (\<exists>x. p = Some x \<and> x \<le> 0) \<longrightarrow> ur = 0.80)
          \<and> snd (generate_company_tp m ef units c apa_df b e)
               = build_plant_level_tp m ef units c b e ur False
          \<and> snd (generate_company_bau m ef units c apa_df b e)
               = build_plant_level_tp m ef units c b e ur True
          \<and> map annual_calibrated_ur (fst (generate_company_tp m ef units c apa_df b e))
               = replicate (length (aggregate_annual
                    (snd (generate_company_tp m ef units c apa_df b e)))) ur
          \<and> map annual_calibrated_ur (fst (generate_company_bau m ef units c apa_df b e))
               = replicate (length (aggregate_annual
                    (snd (generate_company_bau m ef units c apa_df b e)))) ur"
    unfolding Let_def generate_company_tp_def generate_company_bau_def
    using band clip dflt generate_company_selected [OF sel, of False m ef units e]
      generate_company_selected [OF sel, of True m ef units e]
    by blast
next
  assume "select_company_apa apa_df c b = None"
  then show "generate_company_tp m ef units c apa_df b e = ([], [])"
    and "generate_company_bau m ef units c apa_df b e = ([], [])"
    by (simp_all add: generate_company_tp_def generate_company_bau_def
          generate_company_unselected)
qed

theorem calibrated_ur_in_band_witness:
  "select_company_apa [apa_mid] ''POSCO Holdings'' 2024 = Some (apa_mid, 2024)
   \<and> map annual_calibrated_ur (fst (generate_company_tp example_matching example_ef
        [u_operating] ''POSCO Holdings'' [apa_mid] 2024 2024)) = [3 / 5]
   \<and> map detail_production_mt (snd (generate_company_tp example_matching example_ef
        [u_operating] ''POSCO Holdings'' [apa_mid] 2024 2024)) = [6]
   \<and> select_company_apa [apa_low] ''POSCO Holdings'' 2024 = Some (apa_low, 2024)
   \<and> map annual_calibrated_ur (fst (generate_company_tp example_matching example_ef
        [u_operating] ''POSCO Holdings'' [apa_low] 2024 2024)) = [2 / 5]
   \<and> map detail_production_mt (snd (generate_company_tp example_matching example_ef
        [u_operating] ''POSCO Holdings'' [apa_low] 2024 2024)) = [4]
   \<and> select_company_apa [apa_high] ''POSCO Holdings'' 2024 = Some (apa_high, 2024)
   \<and> map annual_calibrated_ur (fst (generate_company_tp example_matching example_ef
        [u_operating] ''POSCO Holdings'' [apa_high] 2024 2024)) = [1]
   \<and> map detail_production_mt (snd (generate_company_tp example_matching example_ef
        [u_operating] ''POSCO Holdings'' [apa_high] 2024 2024)) = [10]
   \<and> select_company_apa [apa_missing] ''POSCO Holdings'' 2024 = Some (apa_missing, 2024)
   \<and> map annual_calibrated_ur (fst (generate_company_tp example_matching example_ef
        [u_operating] ''POSCO Holdings'' [apa_missing] 2024 2024)) = [4 / 5]
   \<and> map detail_production_mt (snd (generate_company_tp example_matching example_ef
        [u_operating] ''POSCO Holdings'' [apa_missing] 2024 2024)) = [8]
   \<and> map detail_production_mt (snd (generate_company_bau example_matching example_ef
        [u_operating] ''POSCO Holdings'' [apa_mid] 2024 2024)) = [6]
   \<and> select_company_apa [] ''POSCO Holdings'' 2024 = None
   \<and> generate_company_tp example_matching example_ef [u_operating] ''POSCO Holdings'' []
        2024 2024 = ([], [])"
proof -
  have s_mid: "select_company_apa [apa_mid] ''POSCO Holdings'' 2024 = Some (apa_mid, 2024)"
    by code_simp
  have u_mid: "calibrate_ur (base_capacity_mt (match_units_to_company example_matching
        [u_operating] ''POSCO Holdings'') 2024) (apa_production_mt apa_mid) = 3 / 5"
    by code_simp
  have d_mid: "map detail_production_mt (build_plant_level_tp example_matching example_ef
        [u_operating] ''POSCO Holdings'' 2024 2024 (3 / 5) False) = [6]"
    by code_simp
  have l_mid: "length (aggregate_annual (build_plant_level_tp example_matching example_ef
        [u_operating] ''POSCO Holdings'' 2024 2024 (3 / 5) False)) = Suc 0"
    by code_simp
  note i_mid = calibrated_ur_in_band [of "[apa_mid]" "''POSCO Holdings''" 2024 apa_mid 2024
      example_matching "[u_operating]" example_ef 2024, unfolded Let_def]
  have a_mid: "snd (generate_company_tp example_matching example_ef [u_operating]
        ''POSCO Holdings'' [apa_mid] 2024 2024)
      = build_plant_level_tp example_matching example_ef [u_operating] ''POSCO Holdings''
          2024 2024 (3 / 5) False"
    using i_mid s_mid unfolding u_mid by blast
  have b_mid: "map annual_calibrated_ur (fst (generate_company_tp example_matching example_ef
        [u_operating] ''POSCO Holdings'' [apa_mid] 2024 2024))
      = replicate (length (aggregate_annual (snd (generate_company_tp example_matching
          example_ef [u_operating] ''POSCO Holdings'' [apa_mid] 2024 2024)))) (3 / 5)"
    using i_mid s_mid unfolding u_mid by blast
  have c_mid: "map annual_calibrated_ur (fst (generate_company_tp example_matching example_ef
        [u_operating] ''POSCO Holdings'' [apa_mid] 2024 2024)) = [3 / 5]
      \<and> map detail_production_mt (snd (generate_company_tp example_matching example_ef
        [u_operating] ''POSCO Holdings'' [apa_mid] 2024 2024)) = [6]"
    unfolding b_mid unfolding a_mid l_mid d_mid by simp
  have s_low: "select_company_apa [apa_low] ''POSCO Holdings'' 2024 = Some (apa_low, 2024)"
    by code_simp
  have u_low: "calibrate_ur (base_capacity_mt (match_units_to_company example_matching
        [u_operating] ''POSCO Holdings'') 2024) (apa_production_mt apa_low) = 2 / 5"
    by code_simp
  have d_low: "map detail_production_mt (build_plant_level_tp example_matching example_ef
        [u_operating] ''POSCO Holdings'' 2024 2024 (2 / 5) False) = [4]"
    by code_simp
  have l_low: "length (aggregate_annual (build_plant_level_tp example_matching example_ef
        [u_operating] ''POSCO Holdings'' 2024 2024 (2 / 5) False)) = Suc 0"
    by code_simp
  note i_low = calibrated_ur_in_band [of "[apa_low]" "''POSCO Holdings''" 2024 apa_low 2024
      example_matching "[u_operating]" example_ef 2024, unfolded Let_def]
  have a_low: "snd (generate_company_tp example_matching example_ef [u_operating]
        ''POSCO Holdings'' [apa_low] 2024 2024)
      = build_plant_level_tp example_matching example_ef [u_operating] ''POSCO Holdings''
          2024 2024 (2 / 5) False"
    using i_low s_low unfolding u_low by blast
  have b_low: "map annual_calibrated_ur (fst (generate_company_tp example_matching example_ef
        [u_operating] ''POSCO Holdings'' [apa_low] 2024 2024))
      = replicate (length (aggregate_annual (snd (generate_company_tp example_matching
          example_ef [u_operating] ''POSCO Holdings'' [apa_low] 2024 2024)))) (2 / 5)"
    using i_low s_low unfolding u_low by blast
  have c_low: "map annual_calibrated_ur (fst (generate_company_tp example_matching example_ef
        [u_operating] ''POSCO Holdings'' [apa_low] 2024 2024)) = [2 / 5]
      \<and> map detail_production_mt (snd (generate_company_tp example_matching example_ef
        [u_operating] ''POSCO Holdings'' [apa_low] 2024 2024)) = [4]"
    unfolding b_low unfolding a_low l_low d_low by simp
  have s_high: "select_company_apa [apa_high] ''POSCO Holdings'' 2024 = Some (apa_high, 2024)"
    by code_simp
  have u_high: "calibrate_ur (base_capacity_mt (match_units_to_company example_matching
        [u_operating] ''POSCO Holdings'') 2024) (apa_production_mt apa_high) = 1"
    by code_simp
  have d_high: "map detail_production_mt (build_plant_level_tp example_matching example_ef
        [u_operating] ''POSCO Holdings'' 2024 2024 (1) False) = [10]"
    by code_simp
  have l_high: "length (aggregate_annual (build_plant_level_tp example_matching example_ef
        [u_operating] ''POSCO Holdings'' 2024 2024 (1) False)) = Suc 0"
    by code_simp
  note i_high = calibrated_ur_in_band [of "[apa_high]" "''POSCO Holdings''" 2024 apa_high 2024
      example_matching "[u_operating]" example_ef 2024, unfolded Let_def]
  have a_high: "snd (generate_company_tp example_matching example_ef [u_operating]
        ''POSCO Holdings'' [apa_high] 2024 2024)
      = build_plant_level_tp example_matching example_ef [u_operating] ''POSCO Holdings''
          2024 2024 (1) False"
    using i_high s_high unfolding u_high by blast
  have b_high: "map annual_calibrated_ur (fst (generate_company_tp example_matching example_ef
        [u_operating] ''POSCO Holdings'' [apa_high] 2024 2024))
      = replicate (length (aggregate_annual (snd (generate_company_tp example_matching
          example_ef [u_operating] ''POSCO Holdings'' [apa_high] 2024 2024)))) (1)"
    using i_high s_high unfolding u_high by blast
  have c_high: "map annual_calibrated_ur (fst (generate_company_tp example_matching example_ef
        [u_operating] ''POSCO Holdings'' [apa_high] 2024 2024)) = [1]
      \<and> map detail_production_mt (snd (generate_company_tp example_matching example_ef
        [u_operating] ''POSCO Holdings'' [apa_high] 2024 2024)) = [10]"
    unfolding b_high unfolding a_high l_high d_high by simp
  have s_missing: "select_company_apa [apa_missing] ''POSCO Holdings'' 2024 = Some (apa_missing, 2024)"
    by code_simp
  have u_missing: "calibrate_ur (base_capacity_mt (match_units_to_company example_matching
        [u_operating] ''POSCO Holdings'') 2024) (apa_production_mt apa_missing) = 4 / 5"
    by code_simp
  have d_missing: "map detail_production_mt (build_plant_level_tp example_matching example_ef
        [u_operating] ''POSCO Holdings'' 2024 2024 (4 / 5) False) = [8]"
    by code_simp
  have l_missing: "length (aggregate_annual (build_plant_level_tp example_matching example_ef
        [u_operating] ''POSCO Holdings'' 2024 2024 (4 / 5) False)) = Suc 0"
    by code_simp
  note i_missing = calibrated_ur_in_band [of "[apa_missing]" "''POSCO Holdings''" 2024 apa_missing 2024
      example_matching "[u_operating]" example_ef 2024, unfolded Let_def]
  have a_missing: "snd (generate_company_tp example_matching example_ef [u_operating]
        ''POSCO Holdings'' [apa_missing] 2024 2024)
      = build_plant_level_tp example_matching example_ef [u_operating] ''POSCO Holdings''
          2024 2024 (4 / 5) False"
    using i_missing s_missing unfolding u_missing by blast
  have b_missing: "map annual_calibrated_ur (fst (generate_company_tp example_matching example_ef
        [u_operating] ''POSCO Holdings'' [apa_missing] 2024 2024))
      = replicate (length (aggregate_annual (snd (generate_company_tp example_matching
          example_ef [u_operating] ''POSCO Holdings'' [apa_missing] 2024 2024)))) (4 / 5)"
    using i_missing s_missing unfolding u_missing by blast
  have c_missing: "map annual_calibrated_ur (fst (generate_company_tp example_matching example_ef
        [u_operating] ''POSCO Holdings'' [apa_missing] 2024 2024)) = [4 / 5]
      \<and> map detail_production_mt (snd (generate_company_tp example_matching example_ef
        [u_operating] ''POSCO Holdings'' [apa_missing] 2024 2024)) = [8]"
    unfolding b_missing unfolding a_missing l_missing d_missing by simp
  have d_bau: "map detail_production_mt (build_plant_level_tp example_matching example_ef
        [u_operating] ''POSCO Holdings'' 2024 2024 (3 / 5) True) = [6]"
    by code_simp
  have a_bau: "snd (generate_company_bau example_matching example_ef [u_operating]
        ''POSCO Holdings'' [apa_mid] 2024 2024)
      = build_plant_level_tp example_matching example_ef [u_operating] ''POSCO Holdings''
          2024 2024 (3 / 5) True"
    using i_mid s_mid unfolding u_mid by blast
  have c_bau: "map detail_production_mt (snd (generate_company_bau example_matching example_ef
        [u_operating] ''POSCO Holdings'' [apa_mid] 2024 2024)) = [6]"
    unfolding a_bau d_bau ..
  have s_none: "select_company_apa [] ''POSCO Holdings'' 2024 = None"
    by code_simp
  have c_none: "generate_company_tp example_matching example_ef [u_operating]
        ''POSCO Holdings'' [] 2024 2024 = ([], [])"
    using calibrated_ur_in_band [of "[]" "''POSCO Holdings''" 2024 apa_mid 2024
      example_matching "[u_operating]" example_ef 2024] s_none
    by blast
  show ?thesis
    using s_mid c_mid s_low c_low s_high c_high s_missing c_missing c_bau s_none c_none
    by blast
qed

lemma gem_base_em_pos: "gem_base_em annual b = Some x \<Longrightarrow> 0 < x"
  by (auto simp: gem_base_em_def split: list.splits if_splits)

lemma round_nd_mult_one: "round_nd (x * 1) n = round_nd x n"
  by simp

text \<open>
  C2 (as amended). The scale factor is the trusted base value over the raw base value
  when both are positive and 1 otherwise; without a trusted base value it is 1 and the
  frame is flagged unanchored. Every year's output and emissions are the raw values times
  the scale factor, rounded to three decimals, and the reported scale factor is rounded
  to four. When the trusted base value equals the raw base value the scale factor is 1
  and the anchored output and emissions of every year are the raw values rounded to three
  decimals, the values the unanchored branch reports.
\<close>

theorem anchoring_rescales:
  "(0 < a \<and> 0 < x \<longrightarrow>
      anchor_scale_factor (Some a) (Some x) = a / x \<and> is_anchored (Some a) (Some x))
   \<and> (\<not> (0 < a' \<and> 0 < x') \<longrightarrow>
      anchor_scale_factor (Some a') (Some x') = 1 \<and> \<not> is_anchored (Some a') (Some x'))
   \<and> anchor_scale_factor None g = 1 \<and> \<not> is_anchored None g
   \<and> anchor_scale_factor apa' None = 1 \<and> \<not> is_anchored apa' None
   \<and> map annual_emissions_mt (anchor apa b ur annual)
        = map (\<lambda>r. round_nd (raw_emissions r * anchor_scale_factor apa (gem_base_em annual b)) 3)
            annual
   \<and> map annual_production_mt (anchor apa b ur annual)
        = map (\<lambda>r. round_nd (raw_production r * anchor_scale_factor apa (gem_base_em annual b)) 3)
            annual
   \<and> (\<forall>r \<in> set (anchor apa b ur annual).
         apa_anchored r = is_anchored apa (gem_base_em annual b)
         \<and> annual_scale_factor r
             = round_nd (anchor_scale_factor apa (gem_base_em annual b)) 4)
   \<and> (gem_base_em annual b = Some t \<longrightarrow>
         anchor_scale_factor (Some t) (gem_base_em annual b) = 1
         \<and> map annual_emissions_mt (anchor (Some t) b ur annual)
             = map (\<lambda>r. round_nd (raw_emissions r) 3) annual
         \<and> map annual_production_mt (anchor (Some t) b ur annual)
             = map (\<lambda>r. round_nd (raw_production r) 3) annual
         \<and> map annual_emissions_mt (anchor (Some t) b ur annual)
             = map annual_emissions_mt (anchor None b ur annual)
         \<and> map annual_production_mt (anchor (Some t) b ur annual)
             = map annual_production_mt (anchor None b ur annual))"
proof (intro conjI impI ballI)
  fix r assume "r \<in> set (anchor apa b ur annual)"
  then show "apa_anchored r = is_anchored apa (gem_base_em annual b)"
    and "annual_scale_factor r = round_nd (anchor_scale_factor apa (gem_base_em annual b)) 4"
    by (auto simp: anchor_def Let_def)
next
  assume t: "gem_base_em annual b = Some t"
  then have pos: "0 < t" by (rule gem_base_em_pos)
  then show sf: "anchor_scale_factor (Some t) (gem_base_em annual b) = 1"
    using t by (simp add: anchor_scale_factor_def)
  have an: "is_anchored (Some t) (gem_base_em annual b)"
    using t pos by (simp add: is_anchored_def)
  show e: "map annual_emissions_mt (anchor (Some t) b ur annual)
             = map (\<lambda>r. round_nd (raw_emissions r) 3) annual"
    using an sf by (simp add: anchor_def Let_def o_def)
  show p: "map annual_production_mt (anchor (Some t) b ur annual)
             = map (\<lambda>r. round_nd (raw_production r) 3) annual"
    using an sf by (simp add: anchor_def Let_def o_def)
  have nn: "\<not> is_anchored None (gem_base_em annual b)"
    by (simp add: is_anchored_def)
  show "map annual_emissions_mt (anchor (Some t) b ur annual)
             = map annual_emissions_mt (anchor None b ur annual)"
    unfolding e using nn by (simp add: anchor_def Let_def o_def)
  show "map annual_production_mt (anchor (Some t) b ur annual)
             = map annual_production_mt (anchor None b ur annual)"
    unfolding p using nn by (simp add: anchor_def Let_def o_def)
next
  show "map annual_emissions_mt (anchor apa b ur annual)
        = map (\<lambda>r. round_nd (raw_emissions r * anchor_scale_factor apa (gem_base_em annual b)) 3)
            annual"
    by (cases "is_anchored apa (gem_base_em annual b)")
       (auto simp: anchor_def Let_def o_def anchor_scale_factor_def is_anchored_def
          split: option.splits)
next
  show "map annual_production_mt (anchor apa b ur annual)
        = map (\<lambda>r. round_nd (raw_production r * anchor_scale_factor apa (gem_base_em annual b)) 3)
            annual"
    by (cases "is_anchored apa (gem_base_em annual b)")
       (auto simp: anchor_def Let_def o_def anchor_scale_factor_def is_anchored_def
          split: option.splits)
qed (auto simp: anchor_scale_factor_def is_anchored_def split: option.splits)

theorem anchoring_rescales_witness:
  "(0::real) < 30 \<and> (0::real) < 15 \<and> anchor_scale_factor (Some 30) (Some 15) = 2
   \<and> \<not> ((0::real) < - 1 \<and> (0::real) < 15) \<and> anchor_scale_factor (Some (- 1)) (Some 15) = 1
   \<and> gem_base_em single_raw 2024 = Some 2.4692
   \<and> set (anchor (Some 2.4692) 2024 1 single_raw) = set single_annual
   \<and> list_all (\<lambda>r. apa_anchored r = is_anchored (Some 2.4692) (gem_base_em single_raw 2024))
        single_annual
   \<and> map annual_emissions_mt (anchor (Some 2.4692) 2024 1 single_raw)
        = map annual_emissions_mt (anchor None 2024 1 single_raw)"
proof -
  note inst = anchoring_rescales [of 30 15 "- 1" 15 None None "Some 2.4692" 2024 1 single_raw
      "2.4692"]
  have e1: "gem_base_em single_raw 2024 = Some 2.4692"
    by code_simp
  have e2: "anchor (Some 2.4692) 2024 1 single_raw = single_annual"
    by code_simp
  have c1: "anchor_scale_factor (Some 30) (Some 15) = 2"
    using inst by simp
  have c2: "anchor_scale_factor (Some (- 1)) (Some 15) = 1"
    using inst by simp
  have c3: "\<forall>r \<in> set single_annual.
         apa_anchored r = is_anchored (Some 2.4692) (gem_base_em single_raw 2024)"
    using inst unfolding e2 by blast
  have c4: "map annual_emissions_mt (anchor (Some 2.4692) 2024 1 single_raw)
        = map annual_emissions_mt (anchor None 2024 1 single_raw)"
    using inst e1 by blast
  show ?thesis
    unfolding list_all_iff using e1 e2 c1 c2 c3 c4 by simp
qed

text \<open>
  The claim as it was stated fails on a company with one unit whose raw base-year
  emissions, 2.4692 Mt, equal the trusted value: the anchored emissions are 2.469.
\<close>

theorem anchored_differs_from_raw_counterexample:
  "apa_emissions_mt single_apa_row = Some 2.4692
   \<and> gem_base_em (aggregate_annual single_detail) 2024 = Some 2.4692
   \<and> generate_company_tp example_matching example_ef [u_single] ''POSCO Holdings''
       [single_apa_row] 2024 2024 = (single_annual, single_detail)
   \<and> map emissions_raw single_annual = [2.4692]
   \<and> map annual_emissions_mt single_annual = [2.469]
   \<and> map annual_emissions_mt single_annual \<noteq> map emissions_raw single_annual"
proof -
  have "apa_emissions_mt single_apa_row = Some 2.4692
   \<and> gem_base_em (aggregate_annual single_detail) 2024 = Some 2.4692
   \<and> map emissions_raw single_annual = [2.4692]
   \<and> map annual_emissions_mt single_annual = [2.469]
   \<and> map annual_emissions_mt single_annual \<noteq> map emissions_raw single_annual"
    by code_simp
  then show ?thesis
    using single_generate by simp
qed

section \<open>Output allocator\<close>

lemma py_div_nonzero: "b \<noteq> 0 \<Longrightarrow> py_div a b = Inr (a / b)"
  by (simp add: py_div_def)

lemma list_ex_of_pos_cap:
  "(0::real) < sum_list (map f (filter P rows)) \<Longrightarrow> list_ex P rows"
  by (induction rows) (auto split: if_splits)

lemma country_step_eq:
  "country_step (c, q) (rows, rem) =
     Inr (if 0 < st_cap rows c then (st_upd c (q / st_cap rows c) rows, rem - q) else (rows, rem))"
proof (cases "0 < st_cap rows c")
  case True
  then have "list_ex (\<lambda>(p, a, u). p_country p = Some c) rows"
    unfolding st_cap_def by (rule list_ex_of_pos_cap)
  with True show ?thesis
    by (simp add: country_step_def st_cap_def st_upd_def py_div_nonzero Let_def)
next
  case False
  then show ?thesis
    by (simp add: country_step_def st_cap_def Let_def)
qed

lemma st_cap_plants:
  "st_cap rows c = country_capacity (map fst rows) c"
  unfolding st_cap_def country_capacity_def
  by (induction rows) auto

lemma map_fst_upd: "map fst (st_upd c k rows) = map fst rows"
  by (induction rows) (auto simp: st_upd_def)

lemma sum_upd:
  "\<forall>(p, a, u) \<in> set rows. p_country p = Some c \<longrightarrow> a = 0 \<Longrightarrow>
     sum_list (st_alloc (st_upd c k rows)) = sum_list (st_alloc rows) + k * st_cap rows c"
  by (induction rows) (auto simp: st_alloc_def st_upd_def st_cap_def algebra_simps)

lemma in_st_upd:
  assumes "(p, a, u) \<in> set (st_upd c k rows)"
  obtains (hit) "p_country p = Some c" "\<not> u"
    | (miss) "p_country p \<noteq> Some c" "(p, a, u) \<in> set rows"
  using assms by (auto simp: st_upd_def split: if_splits)

lemma alloc_inv_init:
  "alloc_inv ps P [] (map (\<lambda>p. (p, 0, True)) ps) P"
  by (simp add: alloc_inv_def applied_targets_def st_alloc_def o_def)

lemma alloc_inv_step:
  assumes inv: "alloc_inv ps P seen rows rem"
    and fresh: "c \<notin> fst ` set seen"
  shows "\<exists>rows' rem'. country_step (c, q) (rows, rem) = Inr (rows', rem')
           \<and> alloc_inv ps P (seen @ [(c, q)]) rows' rem'"
proof (cases "0 < st_cap rows c")
  case False
  have ps: "map fst rows = ps" using inv by (simp add: alloc_inv_def)
  from False have "\<not> 0 < country_capacity ps c"
    by (simp add: st_cap_plants ps)
  then have ap: "applied_targets ps (seen @ [(c, q)]) = applied_targets ps seen"
    by (simp add: applied_targets_def)
  have "country_step (c, q) (rows, rem) = Inr (rows, rem)"
    using False by (simp add: country_step_eq)
  moreover have "alloc_inv ps P (seen @ [(c, q)]) rows rem"
    using inv unfolding alloc_inv_def ap by simp
  ultimately show ?thesis by blast
next
  case True
  have ps: "map fst rows = ps" using inv by (simp add: alloc_inv_def)
  from True have pos: "0 < country_capacity ps c"
    by (simp add: st_cap_plants ps)
  then have ap: "applied_targets ps (seen @ [(c, q)]) = applied_targets ps seen @ [(c, q)]"
    by (simp add: applied_targets_def)
  have notin: "Some c \<notin> set (map (\<lambda>item. Some (fst item)) (applied_targets ps seen))"
    using fresh by (auto simp: applied_targets_def)
  have zero: "\<forall>(p, a, u) \<in> set rows. p_country p = Some c \<longrightarrow> a = 0"
    using inv notin unfolding alloc_inv_def by fastforce
  let ?rows' = "st_upd c (q / st_cap rows c) rows"
  have step: "country_step (c, q) (rows, rem) = Inr (?rows', rem - q)"
    using True by (simp add: country_step_eq)
  have s: "sum_list (st_alloc ?rows') = sum_list (st_alloc rows) + q"
    using sum_upd [OF zero, of "q / st_cap rows c"] True by simp
  have i1: "map fst ?rows' = ps"
    by (simp add: map_fst_upd ps)
  have i2: "\<forall>(p, a, u) \<in> set ?rows'.
           (u \<longrightarrow> a = 0)
           \<and> (u \<longleftrightarrow> p_country p \<notin> set (map (\<lambda>item. Some (fst item))
                  (applied_targets ps (seen @ [(c, q)]))))"
  proof (intro ballI, clarify)
    fix p a u assume "(p, a, u) \<in> set ?rows'"
    then consider (hit) "p_country p = Some c" "\<not> u"
      | (miss) "p_country p \<noteq> Some c" "(p, a, u) \<in> set rows"
      by (rule in_st_upd)
    then show "(u \<longrightarrow> a = 0)
           \<and> (u \<longleftrightarrow> p_country p \<notin> set (map (\<lambda>item. Some (fst item))
                  (applied_targets ps (seen @ [(c, q)]))))"
    proof cases
      case hit
      then show ?thesis unfolding ap by simp
    next
      case miss
      from inv miss(2) have "(u \<longrightarrow> a = 0)
           \<and> (u \<longleftrightarrow> p_country p \<notin> set (map (\<lambda>item. Some (fst item))
                  (applied_targets ps seen)))"
        unfolding alloc_inv_def by blast
      with miss(1) show ?thesis unfolding ap by auto
    qed
  qed
  have i3: "sum_list (st_alloc ?rows') + (rem - q) = P"
    using inv s by (simp add: alloc_inv_def)
  have i4: "rem - q = P - sum_list (map snd (applied_targets ps (seen @ [(c, q)])))"
    using inv unfolding ap by (simp add: alloc_inv_def)
  have "alloc_inv ps P (seen @ [(c, q)]) ?rows' (rem - q)"
    unfolding alloc_inv_def using i1 i2 i3 i4 by blast
  with step show ?thesis by blast
qed

lemma alloc_inv_loop:
  "alloc_inv ps P seen rows rem \<Longrightarrow> distinct (map fst (seen @ items)) \<Longrightarrow>
     \<exists>rows' rem'. country_loop items (rows, rem) = Inr (rows', rem')
        \<and> alloc_inv ps P (seen @ items) rows' rem'"
proof (induction items arbitrary: seen rows rem)
  case Nil
  then show ?case by simp
next
  case (Cons item items)
  obtain c q where item: "item = (c, q)" by (cases item)
  have fresh: "c \<notin> fst ` set seen"
    using Cons.prems(2) item by auto
  obtain rows1 rem1 where step: "country_step (c, q) (rows, rem) = Inr (rows1, rem1)"
      and inv1: "alloc_inv ps P (seen @ [(c, q)]) rows1 rem1"
    using alloc_inv_step [OF Cons.prems(1) fresh] by blast
  have d: "distinct (map fst ((seen @ [(c, q)]) @ items))"
    using Cons.prems(2) item by simp
  from Cons.IH [OF inv1 d] obtain rows' rem' where
    "country_loop items (rows1, rem1) = Inr (rows', rem')"
    "alloc_inv ps P ((seen @ [(c, q)]) @ items) rows' rem'"
    by blast
  then show ?case using step item by simp
qed

lemma country_loop_total:
  "\<exists>st'. country_loop items st = Inr st'"
proof (induction items arbitrary: st)
  case Nil
  then show ?case by simp
next
  case (Cons item items)
  obtain c q where item: "item = (c, q)" by (cases item)
  obtain rows rem where st: "st = (rows, rem)" by (cases st)
  show ?case
    using Cons.IH by (simp add: item st country_step_eq)
qed

lemma allocate_residual_eq:
  "allocate_residual (rows, rem) =
     Inr (if 0 < rem \<and> 0 < st_ucap rows
          then map (\<lambda>(p, a, u). if u then capacity_mt p * (rem / st_ucap rows) else a) rows
          else st_alloc rows)"
proof (cases "0 < st_ucap rows")
  case True
  then have "list_ex (\<lambda>(p, a, u). u) rows"
    unfolding st_ucap_def by (rule list_ex_of_pos_cap)
  with True show ?thesis
    by (simp add: allocate_residual_def st_ucap_def st_alloc_def py_div_nonzero Let_def
          case_prod_beta)
next
  case False
  then show ?thesis
    by (simp add: allocate_residual_def st_ucap_def st_alloc_def Let_def case_prod_beta)
qed

lemma sum_residual:
  "\<forall>(p, a, u) \<in> set rows. u \<longrightarrow> a = 0 \<Longrightarrow>
     sum_list (map (\<lambda>(p, a, u). if u then capacity_mt p * k else a) rows)
       = sum_list (st_alloc rows) + k * st_ucap rows"
  by (induction rows) (auto simp: st_alloc_def st_ucap_def algebra_simps)

lemma st_ucap_plants:
  "\<forall>(p, a, u) \<in> set rows. u \<longleftrightarrow> Q p \<Longrightarrow>
     st_ucap rows = sum_list (map capacity_mt (filter Q (map fst rows)))"
  by (induction rows) (auto simp: st_ucap_def)

lemma allocate_uniform:
  "cp = None \<or> cp = Some [] \<Longrightarrow>
     allocate ps P ur cp = Inr (map (\<lambda>p. capacity_mt p * ur) ps)"
  by (auto simp: allocate_def)

lemma allocate_total: "\<exists>al. allocate ps P ur cp = Inr al"
proof (cases "cp = None \<or> cp = Some []")
  case True
  then show ?thesis by (simp add: allocate_uniform)
next
  case False
  then obtain item items where cp: "cp = Some (item # items)"
    by (cases cp) (auto simp: neq_Nil_conv)
  obtain rows rem where
    "country_loop (item # items) (map (\<lambda>p. (p, 0, True)) ps, P) = Inr (rows, rem)"
    using country_loop_total [of "item # items" "(map (\<lambda>p. (p, 0, True)) ps, P)"]
    by (metis surj_pair)
  then show ?thesis
    unfolding cp allocate_def by (simp add: allocate_residual_eq del: country_loop.simps)
qed

lemma allocate_country:
  assumes ne: "items \<noteq> []" and d: "distinct (map fst items)"
  shows "\<exists>al. allocate ps P ur (Some items) = Inr al \<and> length al = length ps
     \<and> sum_list al =
         (if 0 < P - sum_list (map snd (applied_targets ps items))
               \<and> 0 < unassigned_capacity ps items
          then P else sum_list (map snd (applied_targets ps items)))"
proof -
  obtain rows rem where loop:
      "country_loop items (map (\<lambda>p. (p, 0, True)) ps, P) = Inr (rows, rem)"
    and inv: "alloc_inv ps P items rows rem"
    using alloc_inv_loop [OF alloc_inv_init, of items ps P] d by auto
  have ps: "map fst rows = ps"
    and zero: "\<forall>(p, a, u) \<in> set rows. u \<longrightarrow> a = 0"
    and un: "\<forall>(p, a, u) \<in> set rows. u \<longleftrightarrow>
        p_country p \<notin> set (map (\<lambda>item. Some (fst item)) (applied_targets ps items))"
    and tot: "sum_list (st_alloc rows) + rem = P"
    and rem: "rem = P - sum_list (map snd (applied_targets ps items))"
    using inv unfolding alloc_inv_def by auto
  have ucap: "st_ucap rows = unassigned_capacity ps items"
    using st_ucap_plants [OF un] by (simp add: ps unassigned_capacity_def)
  have len: "length rows = length ps"
    using ps by (metis length_map)
  define al where "al = (if 0 < rem \<and> 0 < st_ucap rows
          then map (\<lambda>(p, a, u). if u then capacity_mt p * (rem / st_ucap rows) else a) rows
          else st_alloc rows)"
  have a: "allocate ps P ur (Some items) = Inr al"
    using ne loop unfolding allocate_def al_def
    by (cases items) (simp_all add: allocate_residual_eq del: country_loop.simps)
  have l: "length al = length ps"
    unfolding al_def using len by (simp add: st_alloc_def)
  have s: "sum_list al = (if 0 < rem \<and> 0 < st_ucap rows then P else P - rem)"
  proof (cases "0 < rem \<and> 0 < st_ucap rows")
    case True
    then have "sum_list al = sum_list (st_alloc rows) + rem / st_ucap rows * st_ucap rows"
      unfolding al_def using sum_residual [OF zero] by simp
    with True tot show ?thesis by simp
  next
    case False
    then show ?thesis unfolding al_def using tot by auto
  qed
  show ?thesis
    using a l s unfolding ucap rem by (intro exI [of _ al]) auto
qed

lemma sum_capacity_mt:
  "sum_list (map capacity_mt ps) = sum_list (map p_capacity_ttpa ps) / 1000"
  by (induction ps) (auto simp: capacity_mt_def add_divide_distrib)

lemma sum_list_times_const:
  "sum_list (map (\<lambda>p. f p * k) ps) = sum_list (map f ps) * (k::real)"
  by (induction ps) (simp_all add: algebra_simps)

lemma sum_uniform:
  assumes "0 < sum_list (map p_capacity_ttpa ps) / 1000"
  shows "sum_list (map (\<lambda>p. capacity_mt p * (P / (sum_list (map p_capacity_ttpa ps) / 1000))) ps) = P"
proof -
  define t where "t = sum_list (map p_capacity_ttpa ps) / 1000"
  have t: "0 < t" "sum_list (map capacity_mt ps) = t"
    using assms by (simp_all add: t_def sum_capacity_mt)
  have "sum_list (map (\<lambda>p. capacity_mt p * (P / t)) ps) = t * (P / t)"
    unfolding sum_list_times_const t(2) ..
  also have "\<dots> = P"
    using t(1) by simp
  finally show ?thesis
    unfolding t_def .
qed

lemma breakdown_allocated:
  "length al = length ps \<Longrightarrow>
     map b_allocated_production_mt (map (\<lambda>(p, a). breakdown_of ef yr p a) (zip ps al)) = al"
proof (induction ps arbitrary: al)
  case Nil
  then show ?case by simp
next
  case (Cons p ps)
  then show ?case by (cases al) (auto simp: breakdown_of_def Let_def)
qed

lemma calculate_no_data:
  "get_company_plants m plants c yr = []
     \<or> sum_list (map p_capacity_ttpa (get_company_plants m plants c yr)) / 1000 \<le> 0 \<Longrightarrow>
   calculate_company_emissions m ef plants c P yr cp = Inr None"
  by (auto simp: calculate_company_emissions_def Let_def)

lemma calculate_some:
  assumes "get_company_plants m plants c yr \<noteq> []"
    and "0 < sum_list (map p_capacity_ttpa (get_company_plants m plants c yr)) / 1000"
  shows "\<exists>al res. allocate (get_company_plants m plants c yr) P
             (P / (sum_list (map p_capacity_ttpa (get_company_plants m plants c yr)) / 1000)) cp
           = Inr al
     \<and> calculate_company_emissions m ef plants c P yr cp = Inr (Some res)
     \<and> res_plant_breakdown res
         = map (\<lambda>(p, a). breakdown_of ef yr p a) (zip (get_company_plants m plants c yr) al)
     \<and> res_utilization_rate res
         = round_nd (P / (sum_list (map p_capacity_ttpa (get_company_plants m plants c yr)) / 1000)) 4"
proof -
  let ?ps = "get_company_plants m plants c yr"
  let ?tot = "sum_list (map p_capacity_ttpa ?ps) / 1000"
  obtain al where al: "allocate ?ps P (P / ?tot) cp = Inr al"
    using allocate_total by blast
  have d: "py_div P ?tot = Inr (P / ?tot)"
    using assms(2) by (simp add: py_div_nonzero)
  show ?thesis
  proof (cases "0 < P")
    case True
    then have "py_div x P = Inr (x / P)" for x
      by (simp add: py_div_nonzero)
    then show ?thesis
      using assms al d True
      by (simp add: calculate_company_emissions_def Let_def)
  next
    case False
    then show ?thesis
      using assms al d
      by (simp add: calculate_company_emissions_def Let_def)
  qed
qed

lemma allocation_sum:
  assumes "calculate_company_emissions m ef plants c P yr cp = Inr (Some res)"
  shows "(cp = None \<or> cp = Some [] \<longrightarrow>
            sum_list (map b_allocated_production_mt (res_plant_breakdown res)) = P)
     \<and> (cp = Some items \<and> items \<noteq> [] \<and> distinct (map fst items) \<longrightarrow>
          sum_list (map b_allocated_production_mt (res_plant_breakdown res))
            = (if 0 < P - sum_list (map snd
                        (applied_targets (get_company_plants m plants c yr) items))
                  \<and> 0 < unassigned_capacity (get_company_plants m plants c yr) items
               then P
               else sum_list (map snd
                        (applied_targets (get_company_plants m plants c yr) items))))"
proof -
  let ?ps = "get_company_plants m plants c yr"
  let ?tot = "sum_list (map p_capacity_ttpa ?ps) / 1000"
  have "\<not> (?ps = [] \<or> ?tot \<le> 0)"
  proof
    assume "?ps = [] \<or> ?tot \<le> 0"
    then have "calculate_company_emissions m ef plants c P yr cp = Inr None"
      by (rule calculate_no_data)
    with assms show False by simp
  qed
  then have ne: "?ps \<noteq> []" and pos: "0 < ?tot"
    by (simp_all add: not_le)
  obtain al where al: "allocate ?ps P (P / ?tot) cp = Inr al"
    and bd: "res_plant_breakdown res = map (\<lambda>(p, a). breakdown_of ef yr p a) (zip ?ps al)"
    using calculate_some [OF ne pos, where P = P and cp = cp and ef = ef] assms by auto
  show ?thesis
  proof (intro conjI impI)
    assume u: "cp = None \<or> cp = Some []"
    then have eq: "al = map (\<lambda>p. capacity_mt p * (P / ?tot)) ?ps"
      using al by (simp add: allocate_uniform)
    then have len: "length al = length ?ps"
      by simp
    have "map b_allocated_production_mt (res_plant_breakdown res) = al"
      unfolding bd by (rule breakdown_allocated [OF len])
    then have "sum_list (map b_allocated_production_mt (res_plant_breakdown res))
        = sum_list (map (\<lambda>p. capacity_mt p * (P / ?tot)) ?ps)"
      by (simp only: eq)
    also have "\<dots> = P"
      by (rule sum_uniform [OF pos])
    finally show "sum_list (map b_allocated_production_mt (res_plant_breakdown res)) = P" .
  next
    assume c: "cp = Some items \<and> items \<noteq> [] \<and> distinct (map fst items)"
    then obtain al' where a': "allocate ?ps P (P / ?tot) (Some items) = Inr al'"
      and len: "length al' = length ?ps"
      and s: "sum_list al' = (if 0 < P - sum_list (map snd (applied_targets ?ps items))
               \<and> 0 < unassigned_capacity ?ps items
          then P else sum_list (map snd (applied_targets ?ps items)))"
      using allocate_country [of items ?ps P "P / ?tot"] by blast
    have "al' = al"
      using al a' c by simp
    then have "map b_allocated_production_mt (res_plant_breakdown res) = al'"
      unfolding bd using breakdown_allocated [OF len] by simp
    then show "sum_list (map b_allocated_production_mt (res_plant_breakdown res))
            = (if 0 < P - sum_list (map snd (applied_targets ?ps items))
                  \<and> 0 < unassigned_capacity ?ps items
               then P
               else sum_list (map snd (applied_targets ?ps items)))"
      using s by (simp only:)
  qed
qed

text \<open>
  C6. When no plant matches the company or the total capacity is zero or negative,
  \<open>calculate_company_emissions\<close> returns the "no data" value, and only then; on no
  input does a division of the allocator meet a zero divisor.
\<close>

theorem no_data_guard:
  "(get_company_plants m plants c yr = []
      \<or> sum_list (map p_capacity_ttpa (get_company_plants m plants c yr)) / 1000 \<le> 0
     \<longrightarrow> calculate_company_emissions m ef plants c P yr cp = Inr None)
   \<and> (calculate_company_emissions m ef plants c P yr cp = Inr None
     \<longrightarrow> get_company_plants m plants c yr = []
        \<or> sum_list (map p_capacity_ttpa (get_company_plants m plants c yr)) / 1000 \<le> 0)
   \<and> calculate_company_emissions m ef plants c P yr cp \<noteq> Inl ZeroDivisionError"
proof (cases "get_company_plants m plants c yr = []
      \<or> sum_list (map p_capacity_ttpa (get_company_plants m plants c yr)) / 1000 \<le> 0")
  case True
  then show ?thesis
    by (simp add: calculate_no_data)
next
  case False
  then have "get_company_plants m plants c yr \<noteq> []"
    "0 < sum_list (map p_capacity_ttpa (get_company_plants m plants c yr)) / 1000"
    by auto
  from calculate_some [OF this, where P = P and cp = cp and ef = ef] False show ?thesis
    by auto
qed

theorem no_data_guard_witness:
  "get_company_plants example_matching [p_operating] ''Nucor'' (Some 2024) = []
   \<and> calculate_company_emissions example_matching example_ef [p_operating] ''Nucor'' 9
        (Some 2024) None = Inr None
   \<and> sum_list (map p_capacity_ttpa
         (get_company_plants example_matching [p_idle] ''POSCO Holdings'' (Some 2024))) / 1000
       \<le> 0
   \<and> calculate_company_emissions example_matching example_ef [p_idle] ''POSCO Holdings'' 9
        (Some 2024) None = Inr None"
proof -
  have e1: "get_company_plants example_matching [p_operating] ''Nucor'' (Some 2024) = []"
    by code_simp
  have e2: "sum_list (map p_capacity_ttpa
         (get_company_plants example_matching [p_idle] ''POSCO Holdings'' (Some 2024))) / 1000
       \<le> 0"
    by code_simp
  show ?thesis
    using e1 e2
      no_data_guard [of example_matching "[p_operating]" "''Nucor''" "Some 2024" example_ef 9 None]
      no_data_guard [of example_matching "[p_idle]" "''POSCO Holdings''" "Some 2024" example_ef 9
        None]
    by blast
qed

text \<open>
  C1 (as amended). For a company and year with positive total capacity the allocated
  output sums to the production target in the uniform mode. In the country mode, with
  \<open>items\<close> the country sub-targets, the loop applies the sub-targets of the countries
  where the company has positive capacity; the sum of the allocated output is the target
  when the residual (target minus applied sub-targets) is positive and the plants in no
  such country have positive capacity, and it is the sum of the applied sub-targets
  otherwise (so it is the target exactly when, in addition, the residual is zero).
\<close>

theorem allocation_sums_to_target:
  assumes "0 < sum_list (map p_capacity_ttpa (get_company_plants m plants c yr)) / 1000"
  shows "(cp = None \<or> cp = Some [] \<longrightarrow>
            allocated_total (calculate_company_emissions m ef plants c P yr cp) = Some P)
     \<and> (cp = Some items \<and> items \<noteq> [] \<and> distinct (map fst items) \<longrightarrow>
          allocated_total (calculate_company_emissions m ef plants c P yr cp)
            = Some (if 0 < P - sum_list (map snd
                        (applied_targets (get_company_plants m plants c yr) items))
                  \<and> 0 < unassigned_capacity (get_company_plants m plants c yr) items
               then P
               else sum_list (map snd
                        (applied_targets (get_company_plants m plants c yr) items))))"
proof -
  have ne: "get_company_plants m plants c yr \<noteq> []"
    using assms by auto
  obtain res where res: "calculate_company_emissions m ef plants c P yr cp = Inr (Some res)"
    using calculate_some [OF ne assms, where P = P and cp = cp and ef = ef] by blast
  have t: "allocated_total (calculate_company_emissions m ef plants c P yr cp)
      = Some (sum_list (map b_allocated_production_mt (res_plant_breakdown res)))"
    by (simp add: allocated_total_def res)
  show ?thesis
    unfolding t using allocation_sum [OF res, of items] by blast
qed

theorem allocation_sums_to_target_witness:
  "0 < sum_list (map p_capacity_ttpa
         (get_company_plants example_matching [p_operating, p_scrap] ''POSCO Holdings''
            (Some 2024))) / 1000
   \<and> allocated_total (calculate_company_emissions example_matching example_ef
         [p_operating, p_scrap] ''POSCO Holdings'' 9 (Some 2024) None) = Some 9
   \<and> 0 < sum_list (map p_capacity_ttpa
         (get_company_plants example_matching [p_operating, p_abroad] ''POSCO Holdings''
            (Some 2024))) / 1000
   \<and> distinct (map fst [(''South Korea'', 5::real), (''United States'', 3)])
   \<and> allocated_total (calculate_company_emissions example_matching example_ef
         [p_operating, p_abroad] ''POSCO Holdings'' 9 (Some 2024)
         (Some [(''South Korea'', 5), (''United States'', 3)])) = Some 8
   \<and> allocated_total (calculate_company_emissions example_matching example_ef
         [p_operating, p_abroad] ''POSCO Holdings'' 9 (Some 2024)
         (Some [(''South Korea'', 5)])) = Some 9"
proof -
  have e1: "0 < sum_list (map p_capacity_ttpa
         (get_company_plants example_matching [p_operating, p_scrap] ''POSCO Holdings''
            (Some 2024))) / 1000"
    by code_simp
  have e2: "0 < sum_list (map p_capacity_ttpa
         (get_company_plants example_matching [p_operating, p_abroad] ''POSCO Holdings''
            (Some 2024))) / 1000"
    by code_simp
  have e3: "sum_list (map snd (applied_targets
         (get_company_plants example_matching [p_operating, p_abroad] ''POSCO Holdings''
            (Some 2024)) [(''South Korea'', 5), (''United States'', 3)])) = 8
     \<and> unassigned_capacity
         (get_company_plants example_matching [p_operating, p_abroad] ''POSCO Holdings''
            (Some 2024)) [(''South Korea'', 5), (''United States'', 3)] = 0"
    by code_simp
  have e4: "sum_list (map snd (applied_targets
         (get_company_plants example_matching [p_operating, p_abroad] ''POSCO Holdings''
            (Some 2024)) [(''South Korea'', 5)])) = 5
     \<and> unassigned_capacity
         (get_company_plants example_matching [p_operating, p_abroad] ''POSCO Holdings''
            (Some 2024)) [(''South Korea'', 5)] = 5"
    by code_simp
  have d: "distinct (map fst [(''South Korea'', 5::real), (''United States'', 3)])"
    by simp
  have c1: "allocated_total (calculate_company_emissions example_matching example_ef
         [p_operating, p_scrap] ''POSCO Holdings'' 9 (Some 2024) None) = Some 9"
    using allocation_sums_to_target [OF e1, of None example_ef 9] by simp
  have c2: "allocated_total (calculate_company_emissions example_matching example_ef
         [p_operating, p_abroad] ''POSCO Holdings'' 9 (Some 2024)
         (Some [(''South Korea'', 5), (''United States'', 3)])) = Some 8"
    using allocation_sums_to_target [OF e2,
        of "Some [(''South Korea'', 5), (''United States'', 3)]" example_ef 9
          "[(''South Korea'', 5), (''United States'', 3)]"] e3
    by simp
  have c3: "allocated_total (calculate_company_emissions example_matching example_ef
         [p_operating, p_abroad] ''POSCO Holdings'' 9 (Some 2024)
         (Some [(''South Korea'', 5)])) = Some 9"
    using allocation_sums_to_target [OF e2,
        of "Some [(''South Korea'', 5)]" example_ef 9 "[(''South Korea'', 5)]"] e4
    by simp
  show ?thesis
    using e1 e2 d c1 c2 c3 by blast
qed

text \<open>
  The claim as it was stated fails in the country mode: two plants of 10 and 5 Mt in two
  countries with sub-targets 5 and 3 and a company target of 9 are allocated 8.
\<close>

theorem allocation_country_counterexample:
  "0 < sum_list (map p_capacity_ttpa
         (get_company_plants example_matching [p_operating, p_abroad] ''POSCO Holdings''
            (Some 2024))) / 1000
   \<and> allocated_total (calculate_company_emissions example_matching example_ef
         [p_operating, p_abroad] ''POSCO Holdings'' 9 (Some 2024)
         (Some [(''South Korea'', 5), (''United States'', 3)])) \<noteq> Some 9"
  by code_simp

section \<open>Reconciliation\<close>












section \<open>Plausibility checks\<close>

lemma ur_samples_iff:
  "(yr, ur) \<in> set (ur_samples m all_plants c comp_prod) \<longleftrightarrow>
     (\<exists>pr \<in> set comp_prod. yr = obs_year pr
        \<and> 0 < company_cap_mt m all_plants c (obs_year pr)
        \<and> ur = obs_production_mt pr / company_cap_mt m all_plants c (obs_year pr)
        \<and> 0.1 \<le> ur \<and> ur \<le> 1.5)"
  by (auto simp: ur_samples_def Let_def)

lemma calculate_total:
  "\<exists>r. calculate_company_emissions m ef plants c P yr cp = Inr r"
proof (cases "get_company_plants m plants c yr = []
      \<or> sum_list (map p_capacity_ttpa (get_company_plants m plants c yr)) / 1000 \<le> 0")
  case True
  then show ?thesis by (simp add: calculate_no_data)
next
  case False
  then have "get_company_plants m plants c yr \<noteq> []"
    "0 < sum_list (map p_capacity_ttpa (get_company_plants m plants c yr)) / 1000"
    by auto
  from calculate_some [OF this, where P = P and cp = cp and ef = ef] show ?thesis
    by blast
qed

lemma apa_record_cases:
  "(\<exists>u. reported_utilization (calculate_company_emissions m ef
         (get_plants_for_year all_plants (obs_year row)) (obs_company row)
         (obs_production_mt row) (Some (obs_year row))
         (cmap (obs_company row, obs_year row))) = Some u
       \<and> u \<le> 1.5
       \<and> (\<exists>r. apa_record m ef all_plants cmap row = Inr [r] \<and> out_utilization_rate r = u
              \<and> out_company r = obs_company row \<and> out_year r = obs_year row))
   \<or> ((reported_utilization (calculate_company_emissions m ef
         (get_plants_for_year all_plants (obs_year row)) (obs_company row)
         (obs_production_mt row) (Some (obs_year row))
         (cmap (obs_company row, obs_year row))) = None
       \<or> (\<exists>u. reported_utilization (calculate_company_emissions m ef
         (get_plants_for_year all_plants (obs_year row)) (obs_company row)
         (obs_production_mt row) (Some (obs_year row))
         (cmap (obs_company row, obs_year row))) = Some u \<and> 1.5 < u))
       \<and> apa_record m ef all_plants cmap row = Inr [])"
proof -
  obtain r where r: "calculate_company_emissions m ef
         (get_plants_for_year all_plants (obs_year row)) (obs_company row)
         (obs_production_mt row) (Some (obs_year row))
         (cmap (obs_company row, obs_year row)) = Inr r"
    using calculate_total by blast
  show ?thesis
    unfolding r
    by (cases r) (auto simp: apa_record_def Let_def r reported_utilization_def)
qed

lemma apa_record_rows:
  "\<exists>out. apa_record m ef all_plants cmap row = Inr out
     \<and> (\<forall>r \<in> set out. out_utilization_rate r \<le> 1.5)"
  using apa_record_cases [of m ef all_plants row cmap] by auto

lemma apa_loop_rows:
  assumes "\<And>row. \<exists>out. body row = Inr out \<and> (\<forall>r \<in> set out. Q r)"
  shows "\<exists>outs. apa_loop body rows = Inr outs \<and> (\<forall>r \<in> set outs. Q r)"
proof (induction rows)
  case Nil
  then show ?case by simp
next
  case (Cons row rows)
  obtain out where "body row = Inr out" "\<forall>r \<in> set out. Q r"
    using assms by blast
  moreover obtain outs where "apa_loop body rows = Inr outs" "\<forall>r \<in> set outs. Q r"
    using Cons.IH by blast
  ultimately show ?case by auto
qed

lemma run_apa_all_rows:
  "\<exists>results. run_apa_all m ef all_plants production cmap = Inr results
     \<and> (\<forall>r \<in> set results. out_utilization_rate r \<le> 1.5)"
proof -
  obtain outs where "apa_loop (apa_record m ef all_plants cmap)
      (production @ estimate_production_from_capacity m all_plants production [2014..2019])
      = Inr outs" "\<forall>r \<in> set outs. out_utilization_rate r \<le> 1.5"
    using apa_loop_rows [of "apa_record m ef all_plants cmap"
        "\<lambda>r. out_utilization_rate r \<le> 1.5", OF apa_record_rows]
    by blast
  then show ?thesis
    by (auto simp: run_apa_all_def Let_def)
qed

lemma strip_flag_where: "strip_flag (flag_where_empty cond label r) = strip_flag r"
  by (simp add: strip_flag_def flag_where_empty_def)

lemma exclude_fold_strip:
  "map strip_flag (foldl (\<lambda>d rule. map (\<lambda>r. if rule_matches rule r
        then r\<lparr>quality_flag := ''excluded: known extraction error''\<rparr> else r) d) d0 rules)
     = map strip_flag d0"
proof (induction rules arbitrary: d0)
  case Nil
  then show ?case by simp
next
  case (Cons rule rules)
  have "map strip_flag (map (\<lambda>r. if rule_matches rule r
        then r\<lparr>quality_flag := ''excluded: known extraction error''\<rparr> else r) d0)
      = map strip_flag d0"
    by (simp add: strip_flag_def rule_matches_def)
  then show ?case
    using Cons.IH by simp
qed

lemma quality_filters_keep_rows:
  "map strip_flag (apply_quality_filters rules df) = map strip_flag df"
proof -
  have "map strip_flag (map (\<lambda>r. r\<lparr>quality_flag := []\<rparr>) df) = map strip_flag df"
    by (simp add: strip_flag_def)
  then show ?thesis
    unfolding apply_quality_filters_def Let_def
    by (simp add: o_def strip_flag_where exclude_fold_strip)
qed

lemma quality_filters_flag:
  "r \<in> set (apply_quality_filters rules df) \<Longrightarrow>
     sr_metric r = ''emissions_mt_co2'' \<and> 200 < sr_value r \<Longrightarrow> quality_flag r \<noteq> []"
  by (auto simp: apply_quality_filters_def Let_def flag_where_empty_def split: if_splits)

text \<open>
  C9 (as amended). A utilization sample outside [0.1, 1.5] is not in the list the
  calibration averages. At final reporting a record whose reported utilization rate
  exceeds 1.5 is skipped by \<open>run_apa_all\<close> (it is logged, not reported), a record at or
  below 1.5 is reported, and every reported row has a utilization rate of at most 1.5.
  At integration an emissions figure above 200 Mt gets a non-empty quality flag and the
  record stays in the frame: \<open>apply_quality_filters\<close> changes nothing but flags.
\<close>

theorem plausibility_handling:
  "(\<forall>(yr, ur) \<in> set (ur_samples m all_plants c comp_prod). 0.1 \<le> ur \<and> ur \<le> 1.5)
   \<and> (reported_utilization (calculate_company_emissions m ef
         (get_plants_for_year all_plants (obs_year row)) (obs_company row)
         (obs_production_mt row) (Some (obs_year row))
         (cmap (obs_company row, obs_year row))) = Some u \<and> 1.5 < u
      \<longrightarrow> apa_record m ef all_plants cmap row = Inr [])
   \<and> (reported_utilization (calculate_company_emissions m ef
         (get_plants_for_year all_plants (obs_year row')) (obs_company row')
         (obs_production_mt row') (Some (obs_year row'))
         (cmap (obs_company row', obs_year row'))) = Some u' \<and> u' \<le> 1.5
      \<longrightarrow> (\<exists>r. apa_record m ef all_plants cmap row' = Inr [r] \<and> out_utilization_rate r = u'))
   \<and> (\<exists>results. run_apa_all m ef all_plants production cmap = Inr results
         \<and> (\<forall>r \<in> set results. out_utilization_rate r \<le> 1.5))
   \<and> map strip_flag (apply_quality_filters rules df) = map strip_flag df
   \<and> (\<forall>r \<in> set (apply_quality_filters rules df).
         sr_metric r = ''emissions_mt_co2'' \<and> 200 < sr_value r \<longrightarrow> quality_flag r \<noteq> [])"
proof (intro conjI)
  show "\<forall>(yr, ur) \<in> set (ur_samples m all_plants c comp_prod). 0.1 \<le> ur \<and> ur \<le> 1.5"
    using ur_samples_iff by blast
  show "reported_utilization (calculate_company_emissions m ef
         (get_plants_for_year all_plants (obs_year row)) (obs_company row)
         (obs_production_mt row) (Some (obs_year row))
         (cmap (obs_company row, obs_year row))) = Some u \<and> 1.5 < u
      \<longrightarrow> apa_record m ef all_plants cmap row = Inr []"
    using apa_record_cases [of m ef all_plants row cmap] by auto
  show "reported_utilization (calculate_company_emissions m ef
         (get_plants_for_year all_plants (obs_year row')) (obs_company row')
         (obs_production_mt row') (Some (obs_year row'))
         (cmap (obs_company row', obs_year row'))) = Some u' \<and> u' \<le> 1.5
      \<longrightarrow> (\<exists>r. apa_record m ef all_plants cmap row' = Inr [r] \<and> out_utilization_rate r = u')"
    using apa_record_cases [of m ef all_plants row' cmap] by auto
  show "\<exists>results. run_apa_all m ef all_plants production cmap = Inr results
         \<and> (\<forall>r \<in> set results. out_utilization_rate r \<le> 1.5)"
    by (rule run_apa_all_rows)
  show "map strip_flag (apply_quality_filters rules df) = map strip_flag df"
    by (rule quality_filters_keep_rows)
  show "\<forall>r \<in> set (apply_quality_filters rules df).
         sr_metric r = ''emissions_mt_co2'' \<and> 200 < sr_value r \<longrightarrow> quality_flag r \<noteq> []"
    using quality_filters_flag by blast
qed

theorem plausibility_handling_witness:
  "ur_samples example_matching [p_recent] ''POSCO Holdings'' [obs_plausible, obs_implausible]
      = [(2024, 3 / 5)]
   \<and> reported_utilization (calculate_company_emissions example_matching example_ef
         (get_plants_for_year [p_recent] (obs_year obs_implausible)) (obs_company obs_implausible)
         (obs_production_mt obs_implausible) (Some (obs_year obs_implausible))
         (no_country_production (obs_company obs_implausible, obs_year obs_implausible)))
       = Some 2
   \<and> apa_record example_matching example_ef [p_recent] no_country_production obs_implausible
       = Inr []
   \<and> reported_utilization (calculate_company_emissions example_matching example_ef
         (get_plants_for_year [p_recent] (obs_year obs_plausible)) (obs_company obs_plausible)
         (obs_production_mt obs_plausible) (Some (obs_year obs_plausible))
         (no_country_production (obs_company obs_plausible, obs_year obs_plausible)))
       = Some (3 / 5)
   \<and> run_apa_all example_matching example_ef [p_recent] [obs_plausible] no_country_production
       = Inr [out_plausible]
   \<and> out_utilization_rate out_plausible \<le> 1.5
   \<and> map quality_flag (apply_quality_filters [] [sr_high]) = [''suspicious: emissions > 200 Mt'']
   \<and> map strip_flag (apply_quality_filters [] [sr_high]) = map strip_flag [sr_high]"
proof -
  note inst = plausibility_handling [of example_matching "[p_recent]" "''POSCO Holdings''"
      "[obs_plausible, obs_implausible]" example_ef obs_implausible no_country_production 2
      obs_plausible "3 / 5" "[obs_plausible]" "[]" "[sr_high]"]
  have e1: "ur_samples example_matching [p_recent] ''POSCO Holdings''
      [obs_plausible, obs_implausible] = [(2024, 3 / 5)]"
    by code_simp
  have e2: "reported_utilization (calculate_company_emissions example_matching example_ef
         (get_plants_for_year [p_recent] (obs_year obs_implausible)) (obs_company obs_implausible)
         (obs_production_mt obs_implausible) (Some (obs_year obs_implausible))
         (no_country_production (obs_company obs_implausible, obs_year obs_implausible)))
       = Some 2"
    by code_simp
  have e3: "reported_utilization (calculate_company_emissions example_matching example_ef
         (get_plants_for_year [p_recent] (obs_year obs_plausible)) (obs_company obs_plausible)
         (obs_production_mt obs_plausible) (Some (obs_year obs_plausible))
         (no_country_production (obs_company obs_plausible, obs_year obs_plausible)))
       = Some (3 / 5)"
    by code_simp
  have e4: "run_apa_all example_matching example_ef [p_recent] [obs_plausible]
      no_country_production = Inr [out_plausible]"
    by code_simp
  have e5: "map quality_flag (apply_quality_filters [] [sr_high])
      = [''suspicious: emissions > 200 Mt'']"
    by code_simp
  have c1: "apa_record example_matching example_ef [p_recent] no_country_production
      obs_implausible = Inr []"
    using inst e2 by simp
  have c2: "out_utilization_rate out_plausible \<le> 1.5"
    using inst unfolding e4 by simp
  have c3: "map strip_flag (apply_quality_filters [] [sr_high]) = map strip_flag [sr_high]"
    using inst by blast
  show ?thesis
    using e1 e2 e3 e4 e5 c1 c2 c3 by blast
qed

text \<open>
  The claim as it was stated fails on a company with 10 Mt of capacity and a reported
  production of 20 Mt in 2024: its utilization rate is 2 and the run reports no row.
\<close>

theorem implausible_record_dropped_counterexample:
  "reported_utilization (calculate_company_emissions example_matching example_ef
         (get_plants_for_year [p_recent] 2024) ''POSCO Holdings'' 20 (Some 2024) None)
       = Some 2
   \<and> obs_company obs_implausible = ''POSCO Holdings'' \<and> obs_year obs_implausible = 2024
   \<and> obs_production_mt obs_implausible = 20
   \<and> run_apa_all example_matching example_ef [p_recent] [obs_implausible] no_country_production
       = Inr []"
  by code_simp

end
